theory Spec2Isabelle
  imports Complex_Main "HOL-Library.Sublist"
begin

section \<open>Python strings\<close>

text \<open>
  Strings are lists of characters. The string methods used by
  \<^verbatim>\<open>vba_context.py\<close> and \<^verbatim>\<open>vba_object.py\<close> are modelled on ASCII text:
  \<^verbatim>\<open>lower\<close>, \<^verbatim>\<open>strip\<close>, \<^verbatim>\<open>endswith\<close>, \<^verbatim>\<open>startswith\<close>, \<^verbatim>\<open>replace\<close>, \<^verbatim>\<open>in\<close>,
  \<^verbatim>\<open>index\<close> and \<^verbatim>\<open>rindex\<close>.
\<close>

definition lower_char :: "char \<Rightarrow> char" where
  "lower_char c =
     (case map_of (zip ''ABCDEFGHIJKLMNOPQRSTUVWXYZ'' ''abcdefghijklmnopqrstuvwxyz'') c of
        Some d \<Rightarrow> d
      | None \<Rightarrow> c)"

definition lower :: "string \<Rightarrow> string" where
  "lower s = map lower_char s"

definition is_space :: "char \<Rightarrow> bool" where
  "is_space c = (c \<in> set [CHR '' '', CHR 0x09, CHR 0x0A, CHR 0x0B, CHR 0x0C, CHR 0x0D])"

definition strip :: "string \<Rightarrow> string" where
  "strip s = rev (dropWhile is_space (rev (dropWhile is_space s)))"

definition endswith :: "string \<Rightarrow> string \<Rightarrow> bool" where
  "endswith s suf = (length suf \<le> length s \<and> drop (length s - length suf) s = suf)"

definition startswith :: "string \<Rightarrow> string \<Rightarrow> bool" where
  "startswith s pre = (take (length pre) s = pre)"



text \<open>
  \<^verbatim>\<open>s.replace(old, new)\<close>: every non-overlapping occurrence of \<open>old\<close>, found from
  the left, is replaced. With an empty \<open>old\<close> Python puts \<open>new\<close> before every
  character and at the end.
\<close>

function replace :: "string \<Rightarrow> string \<Rightarrow> string \<Rightarrow> string" where
  "replace old new s =
     (if old = [] then concat (map (\<lambda>c. new @ [c]) s) @ new
      else if s = [] then []
      else if startswith s old then new @ replace old new (drop (length old) s)
      else hd s # replace old new (tl s))"
  by pat_completeness auto
termination
  by (relation "measure (\<lambda>(old, new, s). length s)") auto

declare replace.simps [simp del]

text \<open>\<^verbatim>\<open>str(i)\<close> for an integer: its decimal digits, with a minus sign when negative.\<close>

definition digit_char :: "nat \<Rightarrow> char" where
  "digit_char d = ''0123456789'' ! d"

function nat_digits :: "nat \<Rightarrow> string" where
  "nat_digits n = (if n < 10 then [digit_char n] else nat_digits (n div 10) @ [digit_char (n mod 10)])"
  by pat_completeness auto
termination
  by (relation "measure id") auto

declare nat_digits.simps [simp del]

definition str_int :: "int \<Rightarrow> string" where
  "str_int i = (if i < 0 then CHR ''-'' # nat_digits (nat (- i)) else nat_digits (nat i))"

subsection \<open>Facts about the string methods\<close>

lemma lower_char_idem: "lower_char (lower_char c) = lower_char c"
  by (simp add: lower_char_def)

lemma lower_idem: "lower (lower s) = lower s"
  by (simp add: lower_def lower_char_idem)

lemma lower_append: "lower (a @ b) = lower a @ lower b"
  by (simp add: lower_def)

lemma length_lower: "length (lower s) = length s"
  by (simp add: lower_def)

lemma endswith_iff: "endswith s suf \<longleftrightarrow> (\<exists>xs. s = xs @ suf)"
proof
  assume "endswith s suf"
  then have "s = take (length s - length suf) s @ suf"
    by (simp add: endswith_def) (metis append_take_drop_id)
  then show "\<exists>xs. s = xs @ suf" ..
next
  assume "\<exists>xs. s = xs @ suf"
  then show "endswith s suf" by (auto simp: endswith_def)
qed

text \<open>
  A pattern is unbordered when its first character occurs nowhere else in it: then two
  occurrences of the pattern in a string cannot overlap.
\<close>

definition unbordered :: "string \<Rightarrow> bool" where
  "unbordered old = (old \<noteq> [] \<and> (\<forall>k. 0 < k \<and> k < length old \<longrightarrow> old ! k \<noteq> old ! 0))"

lemma short_no_prefix:
  assumes "unbordered old" and "xs \<noteq> []" and "length xs < length old"
  shows "\<not> startswith (xs @ old) old"
proof
  assume "startswith (xs @ old) old"
  then have eq: "take (length old) (xs @ old) = old" by (simp only: startswith_def)
  have "take (length old) (xs @ old) ! length xs = (xs @ old) ! length xs"
    using assms(3) by (simp only: nth_take)
  also have "\<dots> = old ! 0" by (simp add: nth_append)
  finally have "old ! length xs = old ! 0" by (simp only: eq)
  moreover have "0 < length xs" using assms(2) by simp
  ultimately show False using assms(1,3) by (auto simp: unbordered_def)
qed

lemma startswith_length: "startswith s pre \<Longrightarrow> length pre \<le> length s"
proof -
  assume "startswith s pre"
  then have "length (take (length pre) s) = length pre" by (simp only: startswith_def)
  then show ?thesis by simp
qed

lemma startswith_append:
  assumes "unbordered old" and "xs \<noteq> []"
  shows "startswith (xs @ old) old = startswith xs old"
proof (cases "length xs < length old")
  case True
  then have "\<not> startswith xs old" using startswith_length by fastforce
  with short_no_prefix [OF assms True] show ?thesis by simp
next
  case False
  then show ?thesis by (simp add: startswith_def)
qed

lemma replace_append:
  assumes u: "unbordered old"
  shows "replace old new (xs @ old) = replace old new xs @ new"
proof (induction xs rule: length_induct)
  case (1 xs)
  from u have ne: "old \<noteq> []" by (simp add: unbordered_def)
  show ?case
  proof (cases "xs = []")
    case True
    have a: "replace old new old = new @ replace old new []"
      using ne by (subst replace.simps) (simp add: startswith_def)
    have b: "replace old new [] = []"
      using ne by (subst replace.simps) simp
    from True a b show ?thesis by simp
  next
    case False
    note sw = startswith_append [OF u False]
    show ?thesis
    proof (cases "startswith xs old")
      case True
      from startswith_length [OF True] have len: "length old \<le> length xs" .
      have "length (drop (length old) xs) < length xs" using False ne by simp
      with 1 have ih: "replace old new (drop (length old) xs @ old) = replace old new (drop (length old) xs) @ new"
        by blast
      from True sw have t2: "startswith (xs @ old) old" by simp
      have l: "replace old new (xs @ old) = new @ replace old new (drop (length old) xs @ old)"
        using t2 len ne False by (subst replace.simps) simp
      have r: "replace old new xs = new @ replace old new (drop (length old) xs)"
        using True False ne by (subst replace.simps) simp
      show ?thesis by (simp add: l r ih)
    next
      case nsw: False
      with sw have t2: "\<not> startswith (xs @ old) old" by simp
      obtain c cs where xs: "xs = c # cs" using False by (cases xs) auto
      with 1 have ih: "replace old new (cs @ old) = replace old new cs @ new"
        by simp
      have l: "replace old new (xs @ old) = c # replace old new (cs @ old)"
        using t2 xs ne by (subst replace.simps) simp
      have r: "replace old new xs = c # replace old new cs"
        using nsw xs ne by (subst replace.simps) simp
      show ?thesis by (simp add: l r ih)
    qed
  qed
qed

lemma unbordered_text: "unbordered ''.text''"
  unfolding unbordered_def
proof (intro conjI allI impI)
  show "''.text'' \<noteq> []" by simp
next
  fix k :: nat
  assume "0 < k \<and> k < length ''.text''"
  then have "k = 1 \<or> k = 2 \<or> k = 3 \<or> k = 4" by auto
  then show "''.text'' ! k \<noteq> ''.text'' ! 0" by auto
qed

lemma replace_text_endswith:
  "endswith s ''.text'' \<Longrightarrow> endswith (replace ''.text'' new s) new"
  using replace_append [OF unbordered_text] by (auto simp: endswith_iff)

section \<open>Values and errors\<close>

text \<open>
  A run-time value of the emulator is a Python object; the two source files are the
  output of a conversion to Python 3, and the model follows Python 3. It keeps what the
  source inspects of a value: whether it is a \<^verbatim>\<open>str\<close>, a \<^verbatim>\<open>bytes\<close> object (what
  \<^verbatim>\<open>base64.b64decode\<close> returns), an \<^verbatim>\<open>int\<close> or \<^verbatim>\<open>None\<close>; for
  an instance of \<^verbatim>\<open>VBA_Object\<close> or \<^verbatim>\<open>VbaLibraryFunc\<close> (constructor \<open>Node\<close>) its
  \<^verbatim>\<open>str()\<close> form and whether it has a \<^verbatim>\<open>statements\<close> attribute; for a
  \<^verbatim>\<open>MemberAccessExpression\<close> its \<^verbatim>\<open>str()\<close> form, its \<^verbatim>\<open>lhs\<close> and its \<^verbatim>\<open>rhs\<close>; for any
  other object (a \<^verbatim>\<open>float\<close>, a \<^verbatim>\<open>datetime\<close>) its \<^verbatim>\<open>str()\<close> form and the result of
  \<^verbatim>\<open>int()\<close> on it when it has one.
\<close>

datatype val =
    VStr string
  | VBytes string
  | VInt int
  | VNone
  | Node string bool
  | MemberAccessExpression string val "val list"
  | Foreign string "int option"

datatype error =
    KeyError
  | ValueError
  | TypeError
  | AttributeError
  | IndexError
  | OverflowError
  | RuntimeError string
  | XLRDError

text \<open>
  \<^verbatim>\<open>str(b)\<close> for a \<^verbatim>\<open>bytes\<close> object is its \<^verbatim>\<open>repr\<close>: the letter \<open>b\<close>, a quote, the bytes
  with backslash escapes, and the quote again; the quote is the double one only when
  the bytes hold a single quote and no double quote.
\<close>

definition hex_digit :: "nat \<Rightarrow> char" where
  "hex_digit d = ''0123456789abcdef'' ! d"

definition byte_repr :: "char \<Rightarrow> char \<Rightarrow> string" where
  "byte_repr quote c =
     (if c = CHR 0x5C then [CHR 0x5C, CHR 0x5C]
      else if c = quote then [CHR 0x5C, quote]
      else if c = CHR 0x09 then [CHR 0x5C, CHR ''t'']
      else if c = CHR 0x0A then [CHR 0x5C, CHR ''n'']
      else if c = CHR 0x0D then [CHR 0x5C, CHR ''r'']
      else if 32 \<le> (of_char c :: nat) \<and> (of_char c :: nat) < 127 then [c]
      else [CHR 0x5C, CHR ''x'', hex_digit ((of_char c :: nat) div 16),
            hex_digit ((of_char c :: nat) mod 16)])"

definition bytes_repr :: "string \<Rightarrow> string" where
  "bytes_repr bs =
     (let quote = (if CHR 0x27 \<in> set bs \<and> CHR 0x22 \<notin> set bs then CHR 0x22 else CHR 0x27)
      in [CHR ''b'', quote] @ concat (map (byte_repr quote) bs) @ [quote])"

fun py_str :: "val \<Rightarrow> string" where
  "py_str (VStr s) = s"
| "py_str (VBytes bs) = bytes_repr bs"
| "py_str (VInt i) = str_int i"
| "py_str VNone = ''None''"
| "py_str (Node s b) = s"
| "py_str (MemberAccessExpression s l r) = s"
| "py_str (Foreign s i) = s"

text \<open>\<^verbatim>\<open>is_procedure\<close> (vba\_context.py, lines 53-64): \<^verbatim>\<open>hasattr(vba_object, 'statements')\<close>.\<close>

fun is_procedure :: "val \<Rightarrow> bool" where
  "is_procedure (Node s has_statements) = (if has_statements then True else False)"
| "is_procedure v = False"

section \<open>The execution context\<close>

record file_handle =
  file_name :: string
  file_contents :: "int list"

type_synonym sheet = "val list list"

record Context =
  dll_func_true_names :: "string \<rightharpoonup> string"
  tagged_blocks :: "string \<rightharpoonup> val"
  loaded_excel :: "(string \<rightharpoonup> sheet) option"
  open_files :: "string \<rightharpoonup> file_handle"
  closed_files :: "string \<rightharpoonup> int list"
  globals :: "string \<rightharpoonup> val"
  locals :: "string \<rightharpoonup> val"
  engine :: "(string \<times> string \<times> string) list option"
  doc_vars :: "string \<rightharpoonup> val"
  loop_stack :: "bool list"
  exit_func :: bool
  types :: "string \<rightharpoonup> val"
  with_prefix :: string
  logged :: "string list"

text \<open>
  The fields are those assigned by \<^verbatim>\<open>Context.__init__\<close>. \<open>engine\<close> is the list of
  actions reported to the attached engine (\<open>None\<close> when no engine is attached), and
  \<open>logged\<close> collects the records that the code sends to the module logger at level
  \<^verbatim>\<open>error\<close>; the logger is process-wide and is threaded with the context here.
\<close>

text \<open>A context with nothing in it, nothing attached and no \<^verbatim>\<open>With\<close> prefix.\<close>

definition blank_context :: Context where
  "blank_context =
     \<lparr>dll_func_true_names = Map.empty, tagged_blocks = Map.empty, loaded_excel = None,
      open_files = Map.empty, closed_files = Map.empty, globals = Map.empty,
      locals = Map.empty, engine = None, doc_vars = Map.empty, loop_stack = [],
      exit_func = False, types = Map.empty, with_prefix = [], logged = []\<rparr>"

subsection \<open>Lookup: \<^verbatim>\<open>Context._get\<close> and \<^verbatim>\<open>Context.get\<close>\<close>

text \<open>
  \<^verbatim>\<open>_get\<close> (lines 1541-1567). The argument \<open>VBA_LIBRARY\<close> is the module-level
  dictionary of the same name.
\<close>

fun private_get :: "(string \<rightharpoonup> val) \<Rightarrow> Context \<Rightarrow> val \<Rightarrow> error + val" where
  "private_get VBA_LIBRARY c (VStr n) =
     (let name = lower n in
      case locals c name of Some v \<Rightarrow> Inr v
      | None \<Rightarrow>
          (case globals c name of Some v \<Rightarrow> Inr v
           | None \<Rightarrow>
               (case VBA_LIBRARY name of Some v \<Rightarrow> Inr v
                | None \<Rightarrow> Inl KeyError)))"
| "private_get VBA_LIBRARY c v = Inl KeyError"

text \<open>\<^verbatim>\<open>get\<close> (lines 1569-1585).\<close>

definition get :: "(string \<rightharpoonup> val) \<Rightarrow> Context \<Rightarrow> val \<Rightarrow> error + val" where
  "get VBA_LIBRARY c name =
     (let tmp_name = with_prefix c @ py_str name in
      case private_get VBA_LIBRARY c (VStr tmp_name) of
        Inr v \<Rightarrow> Inr v
      | Inl KeyError \<Rightarrow>
          (case private_get VBA_LIBRARY c (VStr (py_str name)) of
             Inr v \<Rightarrow> Inr v
           | Inl KeyError \<Rightarrow> private_get VBA_LIBRARY c (VStr (py_str name @ ''$''))
           | Inl e \<Rightarrow> Inl e)
      | Inl e \<Rightarrow> Inl e)"

text \<open>
  The specification's reading of \<^verbatim>\<open>get\<close>: the three name forms in order, each probed
  in the three tiers in order, the first hit returned.
\<close>

definition name_forms :: "Context \<Rightarrow> string \<Rightarrow> string list" where
  "name_forms c name = [with_prefix c @ name, name, name @ ''$'']"

definition tiers :: "(string \<rightharpoonup> val) \<Rightarrow> Context \<Rightarrow> (string \<rightharpoonup> val) list" where
  "tiers VBA_LIBRARY c = [locals c, globals c, VBA_LIBRARY]"

definition get_spec :: "(string \<rightharpoonup> val) \<Rightarrow> Context \<Rightarrow> string \<Rightarrow> error + val" where
  "get_spec VBA_LIBRARY c name =
     (case List.map_filter (\<lambda>(n, tier). tier (lower n))
             (List.product (name_forms c name) (tiers VBA_LIBRARY c)) of
        [] \<Rightarrow> Inl KeyError
      | v # _ \<Rightarrow> Inr v)"

subsection \<open>Assignment: \<^verbatim>\<open>Context.set\<close>\<close>

text \<open>The store of \<^verbatim>\<open>set\<close> (lines 1644-1652), \<open>name\<close> being lowercased already.\<close>

definition assign_var :: "Context \<Rightarrow> string \<Rightarrow> val \<Rightarrow> Context" where
  "assign_var c name v =
     (if name \<in> dom (locals c) then c\<lparr>locals := (locals c)(name \<mapsto> v)\<rparr>
      else if name \<in> dom (globals c) \<and> \<not> is_procedure (the (globals c name))
      then c\<lparr>globals := (globals c)(name \<mapsto> v)\<rparr>
      else c\<lparr>locals := (locals c)(name \<mapsto> v)\<rparr>)"

text \<open>Lines 1654-1656.\<close>

definition save_type :: "Context \<Rightarrow> string \<Rightarrow> val option \<Rightarrow> Context" where
  "save_type c name var_type =
     (case var_type of None \<Rightarrow> c | Some t \<Rightarrow> c\<lparr>types := (types c)(name \<mapsto> t)\<rparr>)"

text \<open>
  \<^verbatim>\<open>set\<close> calls itself for the prefixed name, with \<open>do_with_prefix\<close> off, and for the
  \<^verbatim>\<open>.nodetypedvalue\<close> sibling of a \<^verbatim>\<open>.text\<close> name. The rank below decreases at both calls.
\<close>

definition set_rank :: "val \<Rightarrow> bool \<Rightarrow> nat" where
  "set_rank name do_with_prefix =
     (case name of
        VStr n \<Rightarrow> (if endswith (lower n) ''.nodetypedvalue'' then 0 else 2) +
                  (if do_with_prefix then 1 else 0)
      | _ \<Rightarrow> 0)"

lemma lower_ntv: "lower ''.nodetypedvalue'' = ''.nodetypedvalue''"
  by (simp add: lower_def lower_char_def)

lemma endswith_lower_prefix:
  "endswith (lower n) ''.nodetypedvalue'' \<Longrightarrow> endswith (lower (p @ lower n)) ''.nodetypedvalue''"
  by (auto simp: endswith_iff lower_append lower_idem)

lemma endswith_lower_replace:
  "endswith s ''.text'' \<Longrightarrow>
   endswith (lower (replace ''.text'' ''.nodetypedvalue'' s)) ''.nodetypedvalue''"
proof -
  assume "endswith s ''.text''"
  from replace_text_endswith [OF this] obtain xs
    where "replace ''.text'' ''.nodetypedvalue'' s = xs @ ''.nodetypedvalue''"
    by (auto simp: endswith_iff)
  then have "lower (replace ''.text'' ''.nodetypedvalue'' s) = lower xs @ ''.nodetypedvalue''"
    by (simp add: lower_append lower_ntv)
  then show ?thesis by (auto simp: endswith_iff)
qed

lemma text_not_ntv: "endswith s ''.text'' \<Longrightarrow> \<not> endswith s ''.nodetypedvalue''"
  by (auto simp: endswith_iff)

text \<open>
  \<^verbatim>\<open>set\<close> (lines 1639-1684). \<open>b64decode\<close> stands for \<^verbatim>\<open>base64.b64decode\<close>, with \<open>None\<close>
  where the library raises; its result is a \<^verbatim>\<open>bytes\<close> object. The record logged on a
  failed decoding is kept without the text of the exception.
\<close>

function set_var ::
  "(string \<rightharpoonup> val) \<Rightarrow> (string \<Rightarrow> string option) \<Rightarrow> Context \<Rightarrow> val \<Rightarrow> val \<Rightarrow> val option \<Rightarrow> bool \<Rightarrow> Context"
where
  "set_var VBA_LIBRARY b64decode c name0 v var_type do_with_prefix =
     (case name0 of
        VStr n \<Rightarrow>
          let name = lower n;
              c1 = save_type (assign_var c name v) name var_type;
              c2 = (if do_with_prefix \<and> length (with_prefix c1) > 0
                    then set_var VBA_LIBRARY b64decode c1 (VStr (with_prefix c1 @ name)) v var_type False
                    else c1)
          in if endswith name ''.text'' then
               (case get VBA_LIBRARY c2 (VStr (replace ''.text'' ''.datatype'' name)) of
                  Inl e \<Rightarrow> c2
                | Inr node \<Rightarrow>
                    if strip (py_str node) = ''bin.base64'' then
                      (case b64decode (strip (py_str v)) of
                         None \<Rightarrow>
                           c2\<lparr>logged := logged c2 @
                                [''base64 conversion of '' @ [CHR 0x27] @ py_str v @ [CHR 0x27] @ '' failed. '']\<rparr>
                       | Some conv_val \<Rightarrow>
                           set_var VBA_LIBRARY b64decode c2
                             (VStr (replace ''.text'' ''.nodetypedvalue'' name)) (VBytes conv_val) None True)
                    else c2)
             else c2
      | _ \<Rightarrow> c)"
  by pat_completeness auto
termination
proof (relation "measure (\<lambda>(L, b, c, name0, v, t, d). set_rank name0 d)", goal_cases)
  case 1
  show ?case by simp
next
  case (2 VBA_LIBRARY b64decode c name0 v var_type do_with_prefix n name c1)
  then show ?case
    by (auto simp: set_rank_def endswith_lower_prefix)
next
  case (3 VBA_LIBRARY b64decode c name0 v var_type do_with_prefix n name c1 c2 node conv)
  then show ?case
    by (auto simp: set_rank_def endswith_lower_replace text_not_ntv lower_idem)
qed

declare set_var.simps [simp del]







section \<open>The safety governor\<close>

text \<open>
  \<^verbatim>\<open>limits_exceeded\<close> (vba\_object.py, lines 77-101). \<open>level\<close> is the number of frames
  on the call stack, \<open>recursionlimit\<close> the value of \<^verbatim>\<open>sys.getrecursionlimit()\<close>, \<open>now\<close>
  the clock reading and \<open>max_emulation_time\<close> the module variable of that name. The
  product with the literal \<^verbatim>\<open>.75\<close> is taken over the rationals: three quarters is a
  binary fraction, so the floating-point product is exact for every recursion limit
  a Python process can have.
\<close>

definition limits_exceeded :: "nat \<Rightarrow> nat \<Rightarrow> nat \<Rightarrow> nat option \<Rightarrow> bool \<Rightarrow> error + bool" where
  "limits_exceeded level recursionlimit now max_emulation_time throw_error =
     (let recursion_exceeded = (rat_of_nat level > rat_of_nat recursionlimit * (75 / 100));
          time_exceeded = (case max_emulation_time of None \<Rightarrow> False | Some t \<Rightarrow> now > t)
      in if recursion_exceeded \<and> throw_error
         then Inl (RuntimeError ''The ViperMonkey recursion depth will be exceeded. Aborting.'')
         else if time_exceeded \<and> throw_error
         then Inl (RuntimeError ''The ViperMonkey emulation time limit was exceeded. Aborting.'')
         else Inr (recursion_exceeded \<or> time_exceeded))"

section \<open>Coercion\<close>

text \<open>
  \<^verbatim>\<open>int(s)\<close> for a \<^verbatim>\<open>str\<close>: surrounding whitespace is dropped, a sign may come first,
  and the rest must be a non-empty run of decimal digits; anything else raises
  \<^verbatim>\<open>ValueError\<close>.
\<close>

definition digit_val :: "char \<Rightarrow> nat option" where
  "digit_val c = map_of (zip ''0123456789'' [0, 1, 2, 3, 4, 5, 6, 7, 8, 9]) c"

definition digits_val :: "string \<Rightarrow> nat" where
  "digits_val ds = foldl (\<lambda>a d. 10 * a + the (digit_val d)) 0 ds"

definition py_int_str :: "string \<Rightarrow> error + int" where
  "py_int_str s =
     (let t = strip s;
          (sign, body) = (case t of
                            c # r \<Rightarrow> if c = CHR ''-'' then (- 1, r)
                                     else if c = CHR ''+'' then (1, r) else (1, t)
                          | [] \<Rightarrow> (1 :: int, t))
      in if body = [] \<or> \<not> list_all (\<lambda>d. digit_val d \<noteq> None) body then Inl ValueError
         else Inr (sign * int (digits_val body)))"

text \<open>\<^verbatim>\<open>int(obj)\<close>.\<close>

fun py_int :: "val \<Rightarrow> error + int" where
  "py_int (VStr s) = py_int_str s"
| "py_int (VBytes bs) = py_int_str bs"
| "py_int (VInt i) = Inr i"
| "py_int (Foreign s (Some i)) = Inr i"
| "py_int v = Inl TypeError"

text \<open>\<^verbatim>\<open>coerce_to_str\<close> (vba\_object.py, lines 514-524).\<close>

definition coerce_to_str :: "val \<Rightarrow> string" where
  "coerce_to_str obj = (if obj = VNone \<or> obj = VStr ''NULL'' then [] else py_str obj)"

text \<open>\<^verbatim>\<open>coerce_args_to_str\<close> (lines 526-533).\<close>

definition coerce_args_to_str :: "val list \<Rightarrow> val list" where
  "coerce_args_to_str args = map (\<lambda>arg. VStr (coerce_to_str arg)) args"

text \<open>\<^verbatim>\<open>coerce_to_int\<close> (lines 535-545).\<close>

definition coerce_to_int :: "val \<Rightarrow> error + int" where
  "coerce_to_int obj = (if obj = VNone \<or> obj = VStr ''NULL'' then Inr 0 else py_int obj)"

text \<open>
  \<^verbatim>\<open>coerce_args_to_int\<close> (lines 547-552): the list comprehension stops at the first
  element whose conversion raises.
\<close>

fun coerce_args_to_int :: "val list \<Rightarrow> error + val list" where
  "coerce_args_to_int [] = Inr []"
| "coerce_args_to_int (arg # args) =
     (case coerce_to_int arg of
        Inl e \<Rightarrow> Inl e
      | Inr i \<Rightarrow> (case coerce_args_to_int args of
                    Inl e \<Rightarrow> Inl e
                  | Inr r \<Rightarrow> Inr (VInt i # r)))"

text \<open>
  The type scan of \<^verbatim>\<open>coerce_args\<close> (lines 572-592). The state is
  \<open>(first_type, have_other_type, all_null)\<close>; the loop leaves at the first element that
  is neither \<^verbatim>\<open>"NULL"\<close>, a \<^verbatim>\<open>str\<close> nor an \<^verbatim>\<open>int\<close>.
\<close>

fun find_first_type :: "val list \<Rightarrow> string option \<times> bool \<times> bool \<Rightarrow> string option \<times> bool \<times> bool" where
  "find_first_type [] st = st"
| "find_first_type (arg # args) (first_type, have_other_type, all_null) =
     (if arg = VStr ''NULL'' then find_first_type args (first_type, have_other_type, all_null)
      else case arg of
          VStr s \<Rightarrow>
            find_first_type args
              (if first_type = None then Some ''str'' else first_type, have_other_type, False)
        | VInt i \<Rightarrow>
            find_first_type args
              (if first_type = None then Some ''int'' else first_type, have_other_type, False)
        | _ \<Rightarrow> (first_type, True, False))"

text \<open>
  The two replacement loops (lines 609-615 and 622-628) test \<^verbatim>\<open>args == "NULL"\<close>, the
  whole list against a string, which is never equal.
\<close>

definition list_equals_str :: "val list \<Rightarrow> string \<Rightarrow> bool" where
  "list_equals_str args s = False"

text \<open>\<^verbatim>\<open>coerce_args\<close> (lines 554-631).\<close>

definition coerce_args :: "val list \<Rightarrow> error + val list" where
  "coerce_args orig_args =
     (if length orig_args = 0 then Inr orig_args
      else
        let args = map (\<lambda>arg. if arg = VNone then VStr ''NULL'' else arg) orig_args;
            (first_type0, have_other_type, all_null) = find_first_type args (None, False, True);
            first_type = (if all_null then Some ''int'' else first_type0)
        in if have_other_type then Inr args
           else if first_type = None then Inr args
           else if first_type = Some ''str'' then
             Inr (coerce_args_to_str
                    (map (\<lambda>arg. if list_equals_str args ''NULL'' then VStr [] else arg) args))
           else
             coerce_args_to_int
               (map (\<lambda>arg. if list_equals_str args ''NULL'' then VInt 0 else arg) args))"

text \<open>
  The bulk coercion in the words of its description: \<^verbatim>\<open>None\<close> becomes \<^verbatim>\<open>"NULL"\<close>; a
  list holding an element that is neither a string nor an integer comes back as it
  is; a non-empty list of \<^verbatim>\<open>"NULL"\<close>s only is taken as integers; otherwise the first
  element that is not \<^verbatim>\<open>"NULL"\<close> gives the type every element is coerced to.
\<close>

definition null_of_none :: "val \<Rightarrow> val" where
  "null_of_none arg = (if arg = VNone then VStr ''NULL'' else arg)"

fun is_str_or_int :: "val \<Rightarrow> bool" where
  "is_str_or_int (VStr s) = True"
| "is_str_or_int (VInt i) = True"
| "is_str_or_int v = False"

definition coerce_args_spec :: "val list \<Rightarrow> error + val list" where
  "coerce_args_spec orig_args =
     (let args = map null_of_none orig_args in
      if \<not> list_all is_str_or_int args then Inr args
      else case List.find (\<lambda>a. a \<noteq> VStr ''NULL'') args of
          None \<Rightarrow> Inr (map (\<lambda>a. VInt 0) args)
        | Some (VStr s) \<Rightarrow> Inr (map (\<lambda>a. VStr (coerce_to_str a)) args)
        | Some v \<Rightarrow> coerce_args_to_int args)"

section \<open>Simulated files\<close>

text \<open>\<^verbatim>\<open>_strip_null_bytes\<close> on a string (vba\_context.py, lines 1686-1697).\<close>

definition strip_null_bytes :: "string \<Rightarrow> string" where
  "strip_null_bytes item = replace [CHR 0x00] [] item"

text \<open>
  \<^verbatim>\<open>report_action\<close> (lines 1699-1708). The call \<^verbatim>\<open>self.engine.report_action\<close> on a
  context without engine raises \<^verbatim>\<open>AttributeError\<close>.
\<close>

definition report_action :: "Context \<Rightarrow> string \<Rightarrow> string \<Rightarrow> string \<Rightarrow> bool \<Rightarrow> error + Context" where
  "report_action c action params description strip_nulls =
     (let a = (if strip_nulls then strip_null_bytes action else action);
          p = (if strip_nulls then strip_null_bytes params else params);
          d = (if strip_nulls then strip_null_bytes description else description)
      in case engine c of
           None \<Rightarrow> Inl AttributeError
         | Some actions \<Rightarrow> Inr (c\<lparr>engine := Some (actions @ [(a, p, d)])\<rparr>))"

text \<open>\<^verbatim>\<open>open_file\<close> (lines 1453-1463).\<close>

definition open_file :: "Context \<Rightarrow> string \<Rightarrow> Context" where
  "open_file c fname =
     c\<lparr>open_files := (open_files c)(fname \<mapsto> \<lparr>file_name = fname, file_contents = []\<rparr>)\<rparr>"

text \<open>
  \<^verbatim>\<open>array.array('B', data).tostring()\<close>: the list as bytes; an element outside
  \<open>0..255\<close> raises \<^verbatim>\<open>OverflowError\<close>.
\<close>

definition array_B_tostring :: "int list \<Rightarrow> error + int list" where
  "array_B_tostring data =
     (if list_all (\<lambda>b. 0 \<le> b \<and> b < 256) data then Inr data else Inl OverflowError)"

text \<open>
  \<^verbatim>\<open>dump_file\<close> (lines 1469-1498), with the module variable \<^verbatim>\<open>out_dir\<close> at its
  initial value \<^verbatim>\<open>None\<close>: lines 1500-1539 then only emit a warning. The result is the
  context after the call and the exception that left the call, if one did.
  \<open>sha256_hexdigest\<close> stands for \<^verbatim>\<open>hashlib.sha256(raw_data).hexdigest()\<close>.
\<close>

definition dump_file :: "(int list \<Rightarrow> string) \<Rightarrow> Context \<Rightarrow> val \<Rightarrow> Context \<times> error option" where
  "dump_file sha256_hexdigest c file_id0 =
     (let file_id = py_str file_id0 in
      case open_files c file_id of
        None \<Rightarrow> (c\<lparr>logged := logged c @ [''File '' @ file_id @ '' not open. Cannot save.'']\<rparr>, None)
      | Some handle \<Rightarrow>
          let name = replace ''#'' [] (file_name handle);
              data = file_contents handle;
              c1 = c\<lparr>closed_files := (closed_files c)(name \<mapsto> data)\<rparr>;
              c2 = c1\<lparr>open_files := (open_files c1)(file_id := None)\<rparr>
          in case array_B_tostring data of
               Inl e \<Rightarrow> (c2, Some e)
             | Inr raw_data \<Rightarrow>
                 let file_hash = sha256_hexdigest raw_data in
                 (case report_action c2 ''Dropped File Hash'' file_hash (''File Name: '' @ name) False of
                    Inl e \<Rightarrow> (c2, Some e)
                  | Inr c3 \<Rightarrow> (c3, None)))"

text \<open>\<^verbatim>\<open>dump_all_files\<close> (lines 1465-1467), over the keys in the order given.\<close>

fun dump_files :: "(int list \<Rightarrow> string) \<Rightarrow> Context \<Rightarrow> string list \<Rightarrow> Context \<times> error option" where
  "dump_files h c [] = (c, None)"
| "dump_files h c (fname # rest) =
     (case dump_file h c (VStr fname) of
        (c', Some e) \<Rightarrow> (c', Some e)
      | (c', None) \<Rightarrow> dump_files h c' rest)"

section \<open>Reading a cell of the loaded workbook\<close>














section \<open>Construction and sharing of contexts\<close>

text \<open>
  \<^verbatim>\<open>Context.__init__\<close> (lines 82-1442) copies references: a context made from a parent
  holds the parent's dictionaries themselves. Here the dictionaries that contexts
  can share live in a heap, one partial map from addresses per kind of dictionary,
  and a context object holds their addresses. The dictionaries that every context
  makes for itself (\<open>locals\<close>, \<open>types\<close>, \<open>tagged_blocks\<close>) are held by value.
\<close>

subsection \<open>The constants seeded by the constructor\<close>

text \<open>
  Lines 160-1442 of \<^verbatim>\<open>Context.__init__\<close> assign 1241 entries of \<open>globals\<close>. They are
  listed here in the order of the source, with the names as the source writes them
  (the assignment lowercases them) and in pieces of about a hundred.
\<close>

text \<open>Lines 160-263.\<close>
definition constants_160_263 :: "val \<Rightarrow> (string \<times> val) list" where
  "constants_160_263 now =
     [(''Now'', now),
      (''Application.UserName'', VStr ''--''),
      (''vbDirectory'', VStr ''vbDirectory''),
      (''VBA.vbDirectory'', VStr ''vbDirectory''),
      (''VBA.KeyCodeConstants.vbDirectory'', VStr ''vbDirectory''),
      (''vbKeyLButton'', VInt 1),
      (''VBA.vbKeyLButton'', VInt 1),
      (''VBA.KeyCodeConstants.vbKeyLButton'', VInt 1),
      (''vbKeyRButton'', VInt 2),
      (''VBA.vbKeyRButton'', VInt 2),
      (''VBA.KeyCodeConstants.vbKeyRButton'', VInt 2),
      (''vbKeyCancel'', VInt 3),
      (''VBA.vbKeyCancel'', VInt 3),
      (''VBA.KeyCodeConstants.vbKeyCancel'', VInt 3),
      (''vbKeyMButton'', VInt 4),
      (''VBA.vbKeyMButton'', VInt 4),
      (''VBA.KeyCodeConstants.vbKeyMButton'', VInt 4),
      (''vbKeyBack'', VInt 8),
      (''VBA.vbKeyBack'', VInt 8),
      (''VBA.KeyCodeConstants.vbKeyBack'', VInt 8),
      (''vbKeyTab'', VInt 9),
      (''VBA.vbKeyTab'', VInt 9),
      (''VBA.KeyCodeConstants.vbKeyTab'', VInt 9),
      (''vbKeyClear'', VInt 12),
      (''VBA.vbKeyClear'', VInt 12),
      (''VBA.KeyCodeConstants.vbKeyClear'', VInt 12),
      (''vbKeyReturn'', VInt 13),
      (''VBA.vbKeyReturn'', VInt 13),
      (''VBA.KeyCodeConstants.vbKeyReturn'', VInt 13),
      (''vbKeyShift'', VInt 16),
      (''VBA.vbKeyShift'', VInt 16),
      (''VBA.KeyCodeConstants.vbKeyShift'', VInt 16),
      (''vbKeyControl'', VInt 17),
      (''VBA.vbKeyControl'', VInt 17),
      (''VBA.KeyCodeConstants.vbKeyControl'', VInt 17),
      (''vbKeyMenu'', VInt 18),
      (''VBA.vbKeyMenu'', VInt 18),
      (''VBA.KeyCodeConstants.vbKeyMenu'', VInt 18),
      (''vbKeyPause'', VInt 19),
      (''VBA.vbKeyPause'', VInt 19),
      (''VBA.KeyCodeConstants.vbKeyPause'', VInt 19),
      (''vbKeyCapital'', VInt 20),
      (''VBA.vbKeyCapital'', VInt 20),
      (''VBA.KeyCodeConstants.vbKeyCapital'', VInt 20),
      (''vbKeyEscape'', VInt 27),
      (''VBA.vbKeyEscape'', VInt 27),
      (''VBA.KeyCodeConstants.vbKeyEscape'', VInt 27),
      (''vbKeySpace'', VInt 32),
      (''VBA.vbKeySpace'', VInt 32),
      (''VBA.KeyCodeConstants.vbKeySpace'', VInt 32),
      (''vbKeyPageUp'', VInt 33),
      (''VBA.vbKeyPageUp'', VInt 33),
      (''VBA.KeyCodeConstants.vbKeyPageUp'', VInt 33),
      (''vbKeyPageDown'', VInt 34),
      (''VBA.vbKeyPageDown'', VInt 34),
      (''VBA.KeyCodeConstants.vbKeyPageDown'', VInt 34),
      (''vbKeyEnd'', VInt 35),
      (''VBA.vbKeyEnd'', VInt 35),
      (''VBA.KeyCodeConstants.vbKeyEnd'', VInt 35),
      (''vbKeyHome'', VInt 36),
      (''VBA.vbKeyHome'', VInt 36),
      (''VBA.KeyCodeConstants.vbKeyHome'', VInt 36),
      (''vbKeyLeft'', VInt 37),
      (''VBA.vbKeyLeft'', VInt 37),
      (''VBA.KeyCodeConstants.vbKeyLeft'', VInt 37),
      (''vbKeyUp'', VInt 38),
      (''VBA.vbKeyUp'', VInt 38),
      (''VBA.KeyCodeConstants.vbKeyUp'', VInt 38),
      (''vbKeyRight'', VInt 39),
      (''VBA.vbKeyRight'', VInt 39),
      (''VBA.KeyCodeConstants.vbKeyRight'', VInt 39),
      (''vbKeyDown'', VInt 40),
      (''VBA.vbKeyDown'', VInt 40),
      (''VBA.KeyCodeConstants.vbKeyDown'', VInt 40),
      (''vbKeySelect'', VInt 41),
      (''VBA.vbKeySelect'', VInt 41),
      (''VBA.KeyCodeConstants.vbKeySelect'', VInt 41),
      (''vbKeyPrint'', VInt 42),
      (''VBA.vbKeyPrint'', VInt 42),
      (''VBA.KeyCodeConstants.vbKeyPrint'', VInt 42),
      (''vbKeyExecute'', VInt 43),
      (''VBA.vbKeyExecute'', VInt 43),
      (''VBA.KeyCodeConstants.vbKeyExecute'', VInt 43),
      (''vbKeySnapshot'', VInt 44),
      (''VBA.vbKeySnapshot'', VInt 44),
      (''VBA.KeyCodeConstants.vbKeySnapshot'', VInt 44),
      (''vbKeyInsert'', VInt 45),
      (''VBA.vbKeyInsert'', VInt 45),
      (''VBA.KeyCodeConstants.vbKeyInsert'', VInt 45),
      (''vbKeyDelete'', VInt 46),
      (''VBA.vbKeyDelete'', VInt 46),
      (''VBA.KeyCodeConstants.vbKeyDelete'', VInt 46),
      (''vbKeyHelp'', VInt 47),
      (''VBA.vbKeyHelp'', VInt 47),
      (''VBA.KeyCodeConstants.vbKeyHelp'', VInt 47),
      (''vbKeyNumlock'', VInt 144),
      (''VBA.vbKeyNumlock'', VInt 144),
      (''VBA.KeyCodeConstants.vbKeyNumlock'', VInt 144),
      (''vbKeyA'', VInt 65),
      (''VBA.vbKeyA'', VInt 65)]"

text \<open>Lines 264-363.\<close>
definition constants_264_363 :: "(string \<times> val) list" where
  "constants_264_363 =
     [(''VBA.KeyCodeConstants.vbKeyA'', VInt 65),
      (''vbKeyB'', VInt 66),
      (''VBA.vbKeyB'', VInt 66),
      (''VBA.KeyCodeConstants.vbKeyB'', VInt 66),
      (''vbKeyC'', VInt 67),
      (''VBA.vbKeyC'', VInt 67),
      (''VBA.KeyCodeConstants.vbKeyC'', VInt 67),
      (''vbKeyD'', VInt 68),
      (''VBA.vbKeyD'', VInt 68),
      (''VBA.KeyCodeConstants.vbKeyD'', VInt 68),
      (''vbKeyE'', VInt 69),
      (''VBA.vbKeyE'', VInt 69),
      (''VBA.KeyCodeConstants.vbKeyE'', VInt 69),
      (''vbKeyF'', VInt 70),
      (''VBA.vbKeyF'', VInt 70),
      (''VBA.KeyCodeConstants.vbKeyF'', VInt 70),
      (''vbKeyG'', VInt 71),
      (''VBA.vbKeyG'', VInt 71),
      (''VBA.KeyCodeConstants.vbKeyG'', VInt 71),
      (''vbKeyH'', VInt 72),
      (''VBA.vbKeyH'', VInt 72),
      (''VBA.KeyCodeConstants.vbKeyH'', VInt 72),
      (''vbKeyI'', VInt 73),
      (''VBA.vbKeyI'', VInt 73),
      (''VBA.KeyCodeConstants.vbKeyI'', VInt 73),
      (''vbKeyJ'', VInt 74),
      (''VBA.vbKeyJ'', VInt 74),
      (''VBA.KeyCodeConstants.vbKeyJ'', VInt 74),
      (''vbKeyK'', VInt 75),
      (''VBA.vbKeyK'', VInt 75),
      (''VBA.KeyCodeConstants.vbKeyK'', VInt 75),
      (''vbKeyL'', VInt 76),
      (''VBA.vbKeyL'', VInt 76),
      (''VBA.KeyCodeConstants.vbKeyL'', VInt 76),
      (''vbKeyM'', VInt 77),
      (''VBA.vbKeyM'', VInt 77),
      (''VBA.KeyCodeConstants.vbKeyM'', VInt 77),
      (''vbKeyN'', VInt 78),
      (''VBA.vbKeyN'', VInt 78),
      (''VBA.KeyCodeConstants.vbKeyN'', VInt 78),
      (''vbKeyO'', VInt 79),
      (''VBA.vbKeyO'', VInt 79),
      (''VBA.KeyCodeConstants.vbKeyO'', VInt 79),
      (''vbKeyP'', VInt 80),
      (''VBA.vbKeyP'', VInt 80),
      (''VBA.KeyCodeConstants.vbKeyP'', VInt 80),
      (''vbKeyQ'', VInt 81),
      (''VBA.vbKeyQ'', VInt 81),
      (''VBA.KeyCodeConstants.vbKeyQ'', VInt 81),
      (''vbKeyR'', VInt 82),
      (''VBA.vbKeyR'', VInt 82),
      (''VBA.KeyCodeConstants.vbKeyR'', VInt 82),
      (''vbKeyS'', VInt 83),
      (''VBA.vbKeyS'', VInt 83),
      (''VBA.KeyCodeConstants.vbKeyS'', VInt 83),
      (''vbKeyT'', VInt 84),
      (''VBA.vbKeyT'', VInt 84),
      (''VBA.KeyCodeConstants.vbKeyT'', VInt 84),
      (''vbKeyU'', VInt 85),
      (''VBA.vbKeyU'', VInt 85),
      (''VBA.KeyCodeConstants.vbKeyU'', VInt 85),
      (''vbKeyV'', VInt 86),
      (''VBA.vbKeyV'', VInt 86),
      (''VBA.KeyCodeConstants.vbKeyV'', VInt 86),
      (''vbKeyW'', VInt 87),
      (''VBA.vbKeyW'', VInt 87),
      (''VBA.KeyCodeConstants.vbKeyW'', VInt 87),
      (''vbKeyX'', VInt 88),
      (''VBA.vbKeyX'', VInt 88),
      (''VBA.KeyCodeConstants.vbKeyX'', VInt 88),
      (''vbKeyY'', VInt 89),
      (''VBA.vbKeyY'', VInt 89),
      (''VBA.KeyCodeConstants.vbKeyY'', VInt 89),
      (''vbKeyZ'', VInt 90),
      (''VBA.vbKeyZ'', VInt 90),
      (''VBA.KeyCodeConstants.vbKeyZ'', VInt 90),
      (''vbKey0'', VInt 48),
      (''VBA.vbKey0'', VInt 48),
      (''VBA.KeyCodeConstants.vbKey0'', VInt 48),
      (''vbKey1'', VInt 49),
      (''VBA.vbKey1'', VInt 49),
      (''VBA.KeyCodeConstants.vbKey1'', VInt 49),
      (''vbKey2'', VInt 50),
      (''VBA.vbKey2'', VInt 50),
      (''VBA.KeyCodeConstants.vbKey2'', VInt 50),
      (''vbKey3'', VInt 51),
      (''VBA.vbKey3'', VInt 51),
      (''VBA.KeyCodeConstants.vbKey3'', VInt 51),
      (''vbKey4'', VInt 52),
      (''VBA.vbKey4'', VInt 52),
      (''VBA.KeyCodeConstants.vbKey4'', VInt 52),
      (''vbKey5'', VInt 53),
      (''VBA.vbKey5'', VInt 53),
      (''VBA.KeyCodeConstants.vbKey5'', VInt 53),
      (''vbKey6'', VInt 54),
      (''VBA.vbKey6'', VInt 54),
      (''VBA.KeyCodeConstants.vbKey6'', VInt 54),
      (''vbKey7'', VInt 55),
      (''VBA.vbKey7'', VInt 55),
      (''VBA.KeyCodeConstants.vbKey7'', VInt 55)]"

text \<open>Lines 364-463.\<close>
definition constants_364_463 :: "(string \<times> val) list" where
  "constants_364_463 =
     [(''vbKey8'', VInt 56),
      (''VBA.vbKey8'', VInt 56),
      (''VBA.KeyCodeConstants.vbKey8'', VInt 56),
      (''vbKey9'', VInt 57),
      (''VBA.vbKey9'', VInt 57),
      (''VBA.KeyCodeConstants.vbKey9'', VInt 57),
      (''vbKeyNumpad0'', VInt 96),
      (''VBA.vbKeyNumpad0'', VInt 96),
      (''VBA.KeyCodeConstants.vbKeyNumpad0'', VInt 96),
      (''vbKeyNumpad1'', VInt 97),
      (''VBA.vbKeyNumpad1'', VInt 97),
      (''VBA.KeyCodeConstants.vbKeyNumpad1'', VInt 97),
      (''vbKeyNumpad2'', VInt 98),
      (''VBA.vbKeyNumpad2'', VInt 98),
      (''VBA.KeyCodeConstants.vbKeyNumpad2'', VInt 98),
      (''vbKeyNumpad3'', VInt 99),
      (''VBA.vbKeyNumpad3'', VInt 99),
      (''VBA.KeyCodeConstants.vbKeyNumpad3'', VInt 99),
      (''vbKeyNumpad4'', VInt 100),
      (''VBA.vbKeyNumpad4'', VInt 100),
      (''VBA.KeyCodeConstants.vbKeyNumpad4'', VInt 100),
      (''vbKeyNumpad5'', VInt 101),
      (''VBA.vbKeyNumpad5'', VInt 101),
      (''VBA.KeyCodeConstants.vbKeyNumpad5'', VInt 101),
      (''vbKeyNumpad6'', VInt 102),
      (''VBA.vbKeyNumpad6'', VInt 102),
      (''VBA.KeyCodeConstants.vbKeyNumpad6'', VInt 102),
      (''vbKeyNumpad7'', VInt 103),
      (''VBA.vbKeyNumpad7'', VInt 103),
      (''VBA.KeyCodeConstants.vbKeyNumpad7'', VInt 103),
      (''vbKeyNumpad8'', VInt 104),
      (''VBA.vbKeyNumpad8'', VInt 104),
      (''VBA.KeyCodeConstants.vbKeyNumpad8'', VInt 104),
      (''vbKeyNumpad9'', VInt 105),
      (''VBA.vbKeyNumpad9'', VInt 105),
      (''VBA.KeyCodeConstants.vbKeyNumpad9'', VInt 105),
      (''vbKeyMultiply'', VInt 106),
      (''VBA.vbKeyMultiply'', VInt 106),
      (''VBA.KeyCodeConstants.vbKeyMultiply'', VInt 106),
      (''vbKeyAdd'', VInt 107),
      (''VBA.vbKeyAdd'', VInt 107),
      (''VBA.KeyCodeConstants.vbKeyAdd'', VInt 107),
      (''vbKeySeparator'', VInt 108),
      (''VBA.vbKeySeparator'', VInt 108),
      (''VBA.KeyCodeConstants.vbKeySeparator'', VInt 108),
      (''vbKeySubtract'', VInt 109),
      (''VBA.vbKeySubtract'', VInt 109),
      (''VBA.KeyCodeConstants.vbKeySubtract'', VInt 109),
      (''vbKeyDecimal'', VInt 110),
      (''VBA.vbKeyDecimal'', VInt 110),
      (''VBA.KeyCodeConstants.vbKeyDecimal'', VInt 110),
      (''vbKeyDivide'', VInt 111),
      (''VBA.vbKeyDivide'', VInt 111),
      (''VBA.KeyCodeConstants.vbKeyDivide'', VInt 111),
      (''vbKeyF1'', VInt 112),
      (''VBA.vbKeyF1'', VInt 112),
      (''VBA.KeyCodeConstants.vbKeyF1'', VInt 112),
      (''vbKeyF2'', VInt 113),
      (''VBA.vbKeyF2'', VInt 113),
      (''VBA.KeyCodeConstants.vbKeyF2'', VInt 113),
      (''vbKeyF3'', VInt 114),
      (''VBA.vbKeyF3'', VInt 114),
      (''VBA.KeyCodeConstants.vbKeyF3'', VInt 114),
      (''vbKeyF4'', VInt 115),
      (''VBA.vbKeyF4'', VInt 115),
      (''VBA.KeyCodeConstants.vbKeyF4'', VInt 115),
      (''vbKeyF5'', VInt 116),
      (''VBA.vbKeyF5'', VInt 116),
      (''VBA.KeyCodeConstants.vbKeyF5'', VInt 116),
      (''vbKeyF6'', VInt 117),
      (''VBA.vbKeyF6'', VInt 117),
      (''VBA.KeyCodeConstants.vbKeyF6'', VInt 117),
      (''vbKeyF7'', VInt 118),
      (''VBA.vbKeyF7'', VInt 118),
      (''VBA.KeyCodeConstants.vbKeyF7'', VInt 118),
      (''vbKeyF8'', VInt 119),
      (''VBA.vbKeyF8'', VInt 119),
      (''VBA.KeyCodeConstants.vbKeyF8'', VInt 119),
      (''vbKeyF9'', VInt 120),
      (''VBA.vbKeyF9'', VInt 120),
      (''VBA.KeyCodeConstants.vbKeyF9'', VInt 120),
      (''vbKeyF10'', VInt 121),
      (''VBA.vbKeyF10'', VInt 121),
      (''VBA.KeyCodeConstants.vbKeyF10'', VInt 121),
      (''vbKeyF11'', VInt 122),
      (''VBA.vbKeyF11'', VInt 122),
      (''VBA.KeyCodeConstants.vbKeyF11'', VInt 122),
      (''vbKeyF12'', VInt 123),
      (''VBA.vbKeyF12'', VInt 123),
      (''VBA.KeyCodeConstants.vbKeyF12'', VInt 123),
      (''vbKeyF13'', VInt 124),
      (''VBA.vbKeyF13'', VInt 124),
      (''VBA.KeyCodeConstants.vbKeyF13'', VInt 124),
      (''vbKeyF14'', VInt 125),
      (''VBA.vbKeyF14'', VInt 125),
      (''VBA.KeyCodeConstants.vbKeyF14'', VInt 125),
      (''vbKeyF15'', VInt 126),
      (''VBA.vbKeyF15'', VInt 126),
      (''VBA.KeyCodeConstants.vbKeyF15'', VInt 126),
      (''vbKeyF16'', VInt 127)]"

text \<open>Lines 464-568.\<close>
definition constants_464_568 :: "(string \<times> val) list" where
  "constants_464_568 =
     [(''VBA.vbKeyF16'', VInt 127),
      (''VBA.KeyCodeConstants.vbKeyF16'', VInt 127),
      (''vbNullString'', VStr []),
      (''VBA.vbNullString'', VStr []),
      (''VBA.KeyCodeConstants.vbNullString'', VStr []),
      (''vbNullChar'', VStr [CHR 0x00]),
      (''VBA.vbNullChar'', VStr [CHR 0x00]),
      (''VBA.KeyCodeConstants.vbNullChar'', VStr [CHR 0x00]),
      (''vbUpperCase'', VInt 1),
      (''VBA.vbUpperCase'', VInt 1),
      (''VBA.KeyCodeConstants.vbUpperCase'', VInt 1),
      (''vbLowerCase'', VInt 2),
      (''VBA.vbLowerCase'', VInt 2),
      (''VBA.KeyCodeConstants.vbLowerCase'', VInt 2),
      (''vbProperCase'', VInt 3),
      (''VBA.vbProperCase'', VInt 3),
      (''VBA.KeyCodeConstants.vbProperCase'', VInt 3),
      (''vbWide'', VInt 4),
      (''VBA.vbWide'', VInt 4),
      (''VBA.KeyCodeConstants.vbWide'', VInt 4),
      (''vbNarrow'', VInt 8),
      (''VBA.vbNarrow'', VInt 8),
      (''VBA.KeyCodeConstants.vbNarrow'', VInt 8),
      (''vbKatakana'', VInt 16),
      (''VBA.vbKatakana'', VInt 16),
      (''VBA.KeyCodeConstants.vbKatakana'', VInt 16),
      (''vbHiragana'', VInt 32),
      (''VBA.vbHiragana'', VInt 32),
      (''VBA.KeyCodeConstants.vbHiragana'', VInt 32),
      (''vbUnicode'', VInt 64),
      (''VBA.vbUnicode'', VInt 64),
      (''VBA.KeyCodeConstants.vbUnicode'', VInt 64),
      (''vbFromUnicode'', VInt 128),
      (''VBA.vbFromUnicode'', VInt 128),
      (''VBA.KeyCodeConstants.vbFromUnicode'', VInt 128),
      (''xlOuterCenterPoint'', Foreign ''2.0'' (Some 2)),
      (''xlPivotLineBlank'', VInt 2),
      (''rgbMaroon'', VInt 128),
      (''vbKeyLButton'', VInt 1),
      (''vbKeyRButton'', VInt 2),
      (''vbKeyCancel'', VInt 3),
      (''vbKeyMButton'', VInt 4),
      (''vbKeyBack'', VInt 8),
      (''vbKeyTab'', VInt 9),
      (''vbKeyClear'', VInt 12),
      (''vbKeyReturn'', VInt 13),
      (''vbKeyShift'', VInt 16),
      (''vbKeyControl'', VInt 17),
      (''vbKeyMenu'', VInt 18),
      (''vbKeyPause'', VInt 19),
      (''vbKeyCapital'', VInt 20),
      (''vbKeyEscape'', VInt 27),
      (''vbKeySpace'', VInt 32),
      (''vbKeyPageUp'', VInt 33),
      (''vbKeyPageDown'', VInt 34),
      (''vbKeyEnd'', VInt 35),
      (''vbKeyHome'', VInt 36),
      (''vbKeyLeft'', VInt 37),
      (''vbKeyUp'', VInt 38),
      (''vbKeyRight'', VInt 39),
      (''vbKeyDown'', VInt 40),
      (''vbKeySelect'', VInt 41),
      (''vbKeyPrint'', VInt 42),
      (''vbKeyExecute'', VInt 43),
      (''vbKeySnapshot'', VInt 44),
      (''vbKeyInsert'', VInt 45),
      (''vbKeyDelete'', VInt 46),
      (''vbKeyHelp'', VInt 47),
      (''vbKeyNumlock'', VInt 144),
      (''vbKeyA'', VInt 65),
      (''vbKeyB'', VInt 66),
      (''vbKeyC'', VInt 67),
      (''vbKeyD'', VInt 68),
      (''vbKeyE'', VInt 69),
      (''vbKeyF'', VInt 70),
      (''vbKeyG'', VInt 71),
      (''vbKeyH'', VInt 72),
      (''vbKeyI'', VInt 73),
      (''vbKeyJ'', VInt 74),
      (''vbKeyK'', VInt 75),
      (''vbKeyL'', VInt 76),
      (''vbKeyM'', VInt 77),
      (''vbKeyN'', VInt 78),
      (''vbKeyO'', VInt 79),
      (''vbKeyP'', VInt 80),
      (''vbKeyQ'', VInt 81),
      (''vbKeyR'', VInt 82),
      (''vbKeyS'', VInt 83),
      (''vbKeyT'', VInt 84),
      (''vbKeyU'', VInt 85),
      (''vbKeyV'', VInt 86),
      (''vbKeyW'', VInt 87),
      (''vbKeyX'', VInt 88),
      (''vbKeyY'', VInt 89),
      (''vbKeyZ'', VInt 90),
      (''vbKey0'', VInt 48),
      (''vbKey1'', VInt 49),
      (''vbKey2'', VInt 50),
      (''vbKey3'', VInt 51),
      (''vbKey4'', VInt 52)]"

text \<open>Lines 569-673.\<close>
definition constants_569_673 :: "(string \<times> val) list" where
  "constants_569_673 =
     [(''vbKey5'', VInt 53),
      (''vbKey6'', VInt 54),
      (''vbKey7'', VInt 55),
      (''vbKey8'', VInt 56),
      (''vbKey9'', VInt 57),
      (''vbKeyNumpad0'', VInt 96),
      (''vbKeyNumpad1'', VInt 97),
      (''vbKeyNumpad2'', VInt 98),
      (''vbKeyNumpad3'', VInt 99),
      (''vbKeyNumpad4'', VInt 100),
      (''vbKeyNumpad5'', VInt 101),
      (''vbKeyNumpad6'', VInt 102),
      (''vbKeyNumpad7'', VInt 103),
      (''vbKeyNumpad8'', VInt 104),
      (''vbKeyNumpad9'', VInt 105),
      (''vbKeyMultiply'', VInt 106),
      (''vbKeyAdd'', VInt 107),
      (''vbKeySeparator'', VInt 108),
      (''vbKeySubtract'', VInt 109),
      (''vbKeyDecimal'', VInt 110),
      (''vbKeyDivide'', VInt 111),
      (''vbKeyF1'', VInt 112),
      (''vbKeyF2'', VInt 113),
      (''vbKeyF3'', VInt 114),
      (''vbKeyF4'', VInt 115),
      (''vbKeyF5'', VInt 116),
      (''vbKeyF6'', VInt 117),
      (''vbKeyF7'', VInt 118),
      (''vbKeyF8'', VInt 119),
      (''vbKeyF9'', VInt 120),
      (''vbKeyF10'', VInt 121),
      (''vbKeyF11'', VInt 122),
      (''vbKeyF12'', VInt 123),
      (''vbKeyF13'', VInt 124),
      (''vbKeyF14'', VInt 125),
      (''vbKeyF15'', VInt 126),
      (''vbKeyF16'', VInt 127),
      (''VBA.vbKeyLButton'', VInt 1),
      (''VBA.vbKeyRButton'', VInt 2),
      (''VBA.vbKeyCancel'', VInt 3),
      (''VBA.vbKeyMButton'', VInt 4),
      (''VBA.vbKeyBack'', VInt 8),
      (''VBA.vbKeyTab'', VInt 9),
      (''VBA.vbKeyClear'', VInt 12),
      (''VBA.vbKeyReturn'', VInt 13),
      (''VBA.vbKeyShift'', VInt 16),
      (''VBA.vbKeyControl'', VInt 17),
      (''VBA.vbKeyMenu'', VInt 18),
      (''VBA.vbKeyPause'', VInt 19),
      (''VBA.vbKeyCapital'', VInt 20),
      (''VBA.vbKeyEscape'', VInt 27),
      (''VBA.vbKeySpace'', VInt 32),
      (''VBA.vbKeyPageUp'', VInt 33),
      (''VBA.vbKeyPageDown'', VInt 34),
      (''VBA.vbKeyEnd'', VInt 35),
      (''VBA.vbKeyHome'', VInt 36),
      (''VBA.vbKeyLeft'', VInt 37),
      (''VBA.vbKeyUp'', VInt 38),
      (''VBA.vbKeyRight'', VInt 39),
      (''VBA.vbKeyDown'', VInt 40),
      (''VBA.vbKeySelect'', VInt 41),
      (''VBA.vbKeyPrint'', VInt 42),
      (''VBA.vbKeyExecute'', VInt 43),
      (''VBA.vbKeySnapshot'', VInt 44),
      (''VBA.vbKeyInsert'', VInt 45),
      (''VBA.vbKeyDelete'', VInt 46),
      (''VBA.vbKeyHelp'', VInt 47),
      (''VBA.vbKeyNumlock'', VInt 144),
      (''VBA.vbKeyA'', VInt 65),
      (''VBA.vbKeyB'', VInt 66),
      (''VBA.vbKeyC'', VInt 67),
      (''VBA.vbKeyD'', VInt 68),
      (''VBA.vbKeyE'', VInt 69),
      (''VBA.vbKeyF'', VInt 70),
      (''VBA.vbKeyG'', VInt 71),
      (''VBA.vbKeyH'', VInt 72),
      (''VBA.vbKeyI'', VInt 73),
      (''VBA.vbKeyJ'', VInt 74),
      (''VBA.vbKeyK'', VInt 75),
      (''VBA.vbKeyL'', VInt 76),
      (''VBA.vbKeyM'', VInt 77),
      (''VBA.vbKeyN'', VInt 78),
      (''VBA.vbKeyO'', VInt 79),
      (''VBA.vbKeyP'', VInt 80),
      (''VBA.vbKeyQ'', VInt 81),
      (''VBA.vbKeyR'', VInt 82),
      (''VBA.vbKeyS'', VInt 83),
      (''VBA.vbKeyT'', VInt 84),
      (''VBA.vbKeyU'', VInt 85),
      (''VBA.vbKeyV'', VInt 86),
      (''VBA.vbKeyW'', VInt 87),
      (''VBA.vbKeyX'', VInt 88),
      (''VBA.vbKeyY'', VInt 89),
      (''VBA.vbKeyZ'', VInt 90),
      (''VBA.vbKey0'', VInt 48),
      (''VBA.vbKey1'', VInt 49),
      (''VBA.vbKey2'', VInt 50),
      (''VBA.vbKey3'', VInt 51),
      (''VBA.vbKey4'', VInt 52),
      (''VBA.vbKey5'', VInt 53)]"

text \<open>Lines 674-791.\<close>
definition constants_674_791 :: "(string \<times> val) list" where
  "constants_674_791 =
     [(''VBA.vbKey6'', VInt 54),
      (''VBA.vbKey7'', VInt 55),
      (''VBA.vbKey8'', VInt 56),
      (''VBA.vbKey9'', VInt 57),
      (''VBA.vbKeyNumpad0'', VInt 96),
      (''VBA.vbKeyNumpad1'', VInt 97),
      (''VBA.vbKeyNumpad2'', VInt 98),
      (''VBA.vbKeyNumpad3'', VInt 99),
      (''VBA.vbKeyNumpad4'', VInt 100),
      (''VBA.vbKeyNumpad5'', VInt 101),
      (''VBA.vbKeyNumpad6'', VInt 102),
      (''VBA.vbKeyNumpad7'', VInt 103),
      (''VBA.vbKeyNumpad8'', VInt 104),
      (''VBA.vbKeyNumpad9'', VInt 105),
      (''VBA.vbKeyMultiply'', VInt 106),
      (''VBA.vbKeyAdd'', VInt 107),
      (''VBA.vbKeySeparator'', VInt 108),
      (''VBA.vbKeySubtract'', VInt 109),
      (''VBA.vbKeyDecimal'', VInt 110),
      (''VBA.vbKeyDivide'', VInt 111),
      (''VBA.vbKeyF1'', VInt 112),
      (''VBA.vbKeyF2'', VInt 113),
      (''VBA.vbKeyF3'', VInt 114),
      (''VBA.vbKeyF4'', VInt 115),
      (''VBA.vbKeyF5'', VInt 116),
      (''VBA.vbKeyF6'', VInt 117),
      (''VBA.vbKeyF7'', VInt 118),
      (''VBA.vbKeyF8'', VInt 119),
      (''VBA.vbKeyF9'', VInt 120),
      (''VBA.vbKeyF10'', VInt 121),
      (''VBA.vbKeyF11'', VInt 122),
      (''VBA.vbKeyF12'', VInt 123),
      (''VBA.vbKeyF13'', VInt 124),
      (''VBA.vbKeyF14'', VInt 125),
      (''VBA.vbKeyF15'', VInt 126),
      (''VBA.vbKeyF16'', VInt 127),
      (''xlErrDiv0'', VInt 2007),
      (''xlErrNA'', VInt 2042),
      (''xlErrName'', VInt 2029),
      (''xlErrNull'', VInt 2000),
      (''xlErrNum'', VInt 2036),
      (''xlErrRef'', VInt 2023),
      (''xlErrValue'', VInt 2015),
      (''System.OperatingSystem'', VStr ''Windows NT''),
      (''vbGet'', VInt 2),
      (''vbLet'', VInt 4),
      (''vbMethod'', VInt 1),
      (''vbSet'', VInt 8),
      (''xlTickMarkCross'', VInt 4),
      (''xlTickMarkInside'', VInt 2),
      (''xlTickMarkNone'', VInt (- 4142)),
      (''xlTickMarkOutside'', VInt 3),
      (''xlXmlExportSuccess'', VInt 0),
      (''xlXmlExportValidationFailed'', VInt 1),
      (''xlCellValue'', VInt 1),
      (''xlExpression'', VInt 2),
      (''xlColorScale'', VInt 3),
      (''xlDatabar'', VInt 4),
      (''xlTop10'', VInt 5),
      (''xlIconSet'', VInt 6),
      (''xlUniqueValues'', VInt 8),
      (''xlTextString'', VInt 9),
      (''xlBlanksCondition'', VInt 10),
      (''xlTimePeriod'', VInt 11),
      (''xlAboveAverageCondition'', VInt 12),
      (''xlNoBlanksCondition'', VInt 13),
      (''xlErrorsCondition'', VInt 16),
      (''xlNoErrorsCondition'', VInt 17),
      (''xlBetween'', VInt 1),
      (''xlNotBetween'', VInt 2),
      (''xlEqual'', VInt 3),
      (''xlNotEqual'', VInt 4),
      (''xlGreater'', VInt 5),
      (''xlLess'', VInt 6),
      (''xlGreaterEqual'', VInt 7),
      (''xlLessEqual'', VInt 8),
      (''xl3DArea'', VInt (- 4098)),
      (''xl3DAreaStacked'', VInt 78),
      (''xl3DAreaStacked100'', VInt 79),
      (''xl3DBarClustered'', VInt 60),
      (''xl3DBarStacked'', VInt 61),
      (''xl3DBarStacked100'', VInt 62),
      (''xl3DColumn'', VInt (- 4100)),
      (''xl3DColumnClustered'', VInt 54),
      (''xl3DColumnStacked'', VInt 55),
      (''xl3DColumnStacked100'', VInt 56),
      (''xl3DLine'', VInt (- 4101)),
      (''xl3DPie'', VInt (- 4102)),
      (''xl3DPieExploded'', VInt 70),
      (''xlArea'', VInt 1),
      (''xlAreaStacked'', VInt 76),
      (''xlAreaStacked100'', VInt 77),
      (''xlBarClustered'', VInt 57),
      (''xlBarOfPie'', VInt 71),
      (''xlBarStacked'', VInt 58),
      (''xlBarStacked100'', VInt 59),
      (''xlBubble'', VInt 15),
      (''xlBubble3DEffect'', VInt 87),
      (''xlColumnClustered'', VInt 51),
      (''xlColumnStacked'', VInt 52)]"

text \<open>Lines 792-893.\<close>
definition constants_792_893 :: "(string \<times> val) list" where
  "constants_792_893 =
     [(''xlColumnStacked100'', VInt 53),
      (''xlConeBarClustered'', VInt 102),
      (''xlConeBarStacked'', VInt 103),
      (''xlConeBarStacked100'', VInt 104),
      (''xlConeCol'', VInt 105),
      (''xlConeColClustered'', VInt 99),
      (''xlConeColStacked'', VInt 100),
      (''xlConeColStacked100'', VInt 101),
      (''xlCylinderBarClustered'', VInt 95),
      (''xlCylinderBarStacked'', VInt 96),
      (''xlCylinderBarStacked100'', VInt 97),
      (''xlCylinderCol'', VInt 98),
      (''xlCylinderColClustered'', VInt 92),
      (''xlCylinderColStacked'', VInt 93),
      (''xlCylinderColStacked100'', VInt 94),
      (''xlDoughnut'', VInt (- 4120)),
      (''xlDoughnutExploded'', VInt 80),
      (''xlLine'', VInt 4),
      (''xlLineMarkers'', VInt 65),
      (''xlLineMarkersStacked'', VInt 66),
      (''xlLineMarkersStacked100'', VInt 67),
      (''xlLineStacked'', VInt 63),
      (''xlLineStacked100'', VInt 64),
      (''xlPie'', VInt 5),
      (''xlPieExploded'', VInt 69),
      (''xlPieOfPie'', VInt 68),
      (''xlPyramidBarClustered'', VInt 109),
      (''xlPyramidBarStacked'', VInt 110),
      (''xlPyramidBarStacked100'', VInt 111),
      (''xlPyramidCol'', VInt 112),
      (''xlPyramidColClustered'', VInt 106),
      (''xlPyramidColStacked'', VInt 107),
      (''xlPyramidColStacked100'', VInt 108),
      (''xlRadar'', VInt (- 4151)),
      (''xlRadarFilled'', VInt 82),
      (''xlRadarMarkers'', VInt 81),
      (''xlStockHLC'', VInt 88),
      (''xlStockOHLC'', VInt 89),
      (''xlStockVHLC'', VInt 90),
      (''xlStockVOHLC'', VInt 91),
      (''xlSurface'', VInt 83),
      (''xlSurfaceTopView'', VInt 85),
      (''xlSurfaceTopViewWireframe'', VInt 86),
      (''xlSurfaceWireframe'', VInt 84),
      (''xlXYScatter'', VInt (- 4169)),
      (''xlXYScatterLines'', VInt 74),
      (''xlXYScatterLinesNoMarkers'', VInt 75),
      (''xlXYScatterSmooth'', VInt 72),
      (''xlXYScatterSmoothNoMarkers'', VInt 73),
      (''xl3DBar'', VInt (- 4099)),
      (''xl3DEffects1'', VInt 13),
      (''xl3DEffects2'', VInt 14),
      (''xl3DSurface'', VInt (- 4103)),
      (''xlAbove'', VInt 0),
      (''xlAccounting1'', VInt 4),
      (''xlAccounting2'', VInt 5),
      (''xlAccounting4'', VInt 17),
      (''xlAdd'', VInt 2),
      (''xlAll'', VInt (- 4104)),
      (''xlAccounting3'', VInt 6),
      (''xlAllExceptBorders'', VInt 7),
      (''xlAutomatic'', VInt (- 4105)),
      (''xlBar'', VInt 2),
      (''xlBelow'', VInt 1),
      (''xlBidi'', VInt (- 5000)),
      (''xlBidiCalendar'', VInt 3),
      (''xlBoth'', VInt 1),
      (''xlBottom'', VInt (- 4107)),
      (''xlCascade'', VInt 7),
      (''xlCenter'', VInt (- 4108)),
      (''xlCenterAcrossSelection'', VInt 7),
      (''xlChart4'', VInt 2),
      (''xlChartSeries'', VInt 17),
      (''xlChartShort'', VInt 6),
      (''xlChartTitles'', VInt 18),
      (''xlChecker'', VInt 9),
      (''xlCircle'', VInt 8),
      (''xlClassic1'', VInt 1),
      (''xlClassic2'', VInt 2),
      (''xlClassic3'', VInt 3),
      (''xlClosed'', VInt 3),
      (''xlColor1'', VInt 7),
      (''xlColor2'', VInt 8),
      (''xlColor3'', VInt 9),
      (''xlColumn'', VInt 3),
      (''xlCombination'', VInt (- 4111)),
      (''xlComplete'', VInt 4),
      (''xlConstants'', VInt 2),
      (''xlContents'', VInt 2),
      (''xlContext'', VInt (- 5002)),
      (''xlCorner'', VInt 2),
      (''xlCrissCross'', VInt 16),
      (''xlCross'', VInt 4),
      (''xlCustom'', VInt (- 4114)),
      (''xlDebugCodePane'', VInt 13),
      (''xlDefaultAutoFormat'', VInt (- 1)),
      (''xlDesktop'', VInt 9),
      (''xlDiamond'', VInt 2),
      (''xlDirect'', VInt 1),
      (''xlDistributed'', VInt (- 4117))]"

text \<open>Lines 894-993.\<close>
definition constants_894_993 :: "(string \<times> val) list" where
  "constants_894_993 =
     [(''xlDivide'', VInt 5),
      (''xlDoubleAccounting'', VInt 5),
      (''xlDoubleClosed'', VInt 5),
      (''xlDoubleOpen'', VInt 4),
      (''xlDoubleQuote'', VInt 1),
      (''xlDrawingObject'', VInt 14),
      (''xlEntireChart'', VInt 20),
      (''xlExcelMenus'', VInt 1),
      (''xlExtended'', VInt 3),
      (''xlFill'', VInt 5),
      (''xlFirst'', VInt 0),
      (''xlFixedValue'', VInt 1),
      (''xlFloating'', VInt 5),
      (''xlFormats'', VInt (- 4122)),
      (''xlFormula'', VInt 5),
      (''xlFullScript'', VInt 1),
      (''xlGeneral'', VInt 1),
      (''xlGray16'', VInt 17),
      (''xlGray25'', VInt (- 4124)),
      (''xlGray50'', VInt (- 4125)),
      (''xlGray75'', VInt (- 4126)),
      (''xlGray8'', VInt 18),
      (''xlGregorian'', VInt 2),
      (''xlGrid'', VInt 15),
      (''xlGridline'', VInt 22),
      (''xlHigh'', VInt (- 4127)),
      (''xlHindiNumerals'', VInt 3),
      (''xlIcons'', VInt 1),
      (''xlImmediatePane'', VInt 12),
      (''xlInside'', VInt 2),
      (''xlInteger'', VInt 2),
      (''xlJustify'', VInt (- 4130)),
      (''xlLast'', VInt 1),
      (''xlLastCell'', VInt 11),
      (''xlLatin'', VInt (- 5001)),
      (''xlLeft'', VInt (- 4131)),
      (''xlLeftToRight'', VInt 2),
      (''xlLightDown'', VInt 13),
      (''xlLightHorizontal'', VInt 11),
      (''xlLightUp'', VInt 14),
      (''xlLightVertical'', VInt 12),
      (''xlList1'', VInt 10),
      (''xlList2'', VInt 11),
      (''xlList3'', VInt 12),
      (''xlLocalFormat1'', VInt 15),
      (''xlLocalFormat2'', VInt 16),
      (''xlLogicalCursor'', VInt 1),
      (''xlLong'', VInt 3),
      (''xlLotusHelp'', VInt 2),
      (''xlLow'', VInt (- 4134)),
      (''xlLTR'', VInt (- 5003)),
      (''xlMacrosheetCell'', VInt 7),
      (''xlManual'', VInt (- 4135)),
      (''xlMaximum'', VInt 2),
      (''xlMinimum'', VInt 4),
      (''xlMinusValues'', VInt 3),
      (''xlMixed'', VInt 2),
      (''xlMixedAuthorizedScript'', VInt 4),
      (''xlMixedScript'', VInt 3),
      (''xlModule'', VInt (- 4141)),
      (''xlMultiply'', VInt 4),
      (''xlNarrow'', VInt 1),
      (''xlNextToAxis'', VInt 4),
      (''xlNoDocuments'', VInt 3),
      (''xlNone'', VInt (- 4142)),
      (''xlNotes'', VInt (- 4144)),
      (''xlOff'', VInt (- 4146)),
      (''xlOn'', VInt 1),
      (''xlOpaque'', VInt 3),
      (''xlOpen'', VInt 2),
      (''xlOutside'', VInt 3),
      (''xlPartial'', VInt 3),
      (''xlPartialScript'', VInt 2),
      (''xlPercent'', VInt 2),
      (''xlPlus'', VInt 9),
      (''xlPlusValues'', VInt 2),
      (''xlReference'', VInt 4),
      (''xlRight'', VInt (- 4152)),
      (''xlRTL'', VInt (- 5004)),
      (''xlScale'', VInt 3),
      (''xlSemiautomatic'', VInt 2),
      (''xlSemiGray75'', VInt 10),
      (''xlShort'', VInt 1),
      (''xlShowLabel'', VInt 4),
      (''xlShowLabelAndPercent'', VInt 5),
      (''xlShowPercent'', VInt 3),
      (''xlShowValue'', VInt 2),
      (''xlSimple'', VInt (- 4154)),
      (''xlSingle'', VInt 2),
      (''xlSingleAccounting'', VInt 4),
      (''xlSingleQuote'', VInt 2),
      (''xlSolid'', VInt 1),
      (''xlSquare'', VInt 1),
      (''xlStar'', VInt 5),
      (''xlStError'', VInt 4),
      (''xlStrict'', VInt 2),
      (''xlSubtract'', VInt 3),
      (''xlSystem'', VInt 1),
      (''xlTextBox'', VInt 16),
      (''xlTiled'', VInt 1)]"

text \<open>Lines 994-1099.\<close>
definition constants_994_1099 :: "(string \<times> val) list" where
  "constants_994_1099 =
     [(''xlTitleBar'', VInt 8),
      (''xlToolbar'', VInt 1),
      (''xlToolbarButton'', VInt 2),
      (''xlTop'', VInt (- 4160)),
      (''xlTopToBottom'', VInt 1),
      (''xlTransparent'', VInt 2),
      (''xlTriangle'', VInt 3),
      (''xlVeryHidden'', VInt 2),
      (''xlVisible'', VInt 12),
      (''xlVisualCursor'', VInt 2),
      (''xlWatchPane'', VInt 11),
      (''xlWide'', VInt 3),
      (''xlWorkbookTab'', VInt 6),
      (''xlWorksheet4'', VInt 1),
      (''xlWorksheetCell'', VInt 3),
      (''xlWorksheetShort'', VInt 5),
      (''xlBinsTypeAutomatic'', VInt 0),
      (''xlBinsTypeCategorical'', VInt 1),
      (''xlBinsTypeManual'', VInt 2),
      (''xlBinsTypeBinSize'', VInt 3),
      (''xlBinsTypeBinCount'', VInt 4),
      (''xlCountryCode'', VInt 1),
      (''xlCountrySetting'', VInt 2),
      (''xl3DBar'', VInt (- 4099)),
      (''xlAboveAverage'', VInt 0),
      (''xlActionTypeDrillthrough'', VInt 256),
      (''xlAutomaticAllocation'', VInt 2),
      (''xlEqualAllocation'', VInt 1),
      (''xlAllocateIncrement'', VInt 2),
      (''xl24HourClock'', VInt 33),
      (''xlColumnThenRow'', VInt 2),
      (''xlArabicBothStrict'', VInt 3),
      (''xlArrangeStyleCascade'', VInt 7),
      (''xlArrowHeadLengthLong'', VInt 3),
      (''xlArrowHeadStyleClosed'', VInt 3),
      (''xlArrowHeadWidthMedium'', VInt (- 4138)),
      (''xlFillCopy'', VInt 1),
      (''xlAnd'', VInt 1),
      (''xlAxisCrossesAutomatic'', VInt (- 4105)),
      (''xlPrimary'', VInt 1),
      (''xlCategory'', VInt 1),
      (''xlBackgroundAutomatic'', VInt (- 4105)),
      (''xlBox'', VInt 0),
      (''xlBinsTypeAutomatic'', VInt 0),
      (''xlHairline'', VInt 1),
      (''xlDiagonalDown'', VInt 5),
      (''xlDialogActivate'', VInt 103),
      (''xlErrDiv0'', VInt 2007),
      (''xlAllValues'', VInt 0),
      (''xlCalculatedMeasure'', VInt 2),
      (''xlCalculationAutomatic'', VInt (- 4105)),
      (''xlAnyKey'', VInt 2),
      (''xlCalculating'', VInt 1),
      (''xlAutomaticScale'', VInt (- 4105)),
      (''xlCellChangeApplied'', VInt 3),
      (''xlInsertDeleteCells'', VInt 1),
      (''xlCellTypeAllFormatConditions'', VInt (- 4172)),
      (''xlChartElementPositionAutomatic'', VInt (- 4105)),
      (''xlAnyGallery'', VInt 23),
      (''xlAxis'', VInt 21),
      (''xlLocationAsNewSheet'', VInt 1),
      (''xlAllFaces'', VInt 7),
      (''xlStack'', VInt 2),
      (''xlSplitByCustomSplit'', VInt 4),
      (''xl3DArea'', VInt (- 4098)),
      (''xlCheckInMajorVersion'', VInt 1),
      (''xlClipboardFormatBIFF'', VInt 8),
      (''xlCmdCube'', VInt 1),
      (''xlColorIndexAutomatic'', VInt (- 4105)),
      (''xlDMYFormat'', VInt 4),
      (''xlCommandUnderlinesAutomatic'', VInt (- 4105)),
      (''xlCommentAndIndicator'', VInt 1),
      (''xlConditionValueAutomaticMax'', VInt 7),
      (''xlConnectionTypeDATAFEED'', VInt 6),
      (''xlAverage'', VInt (- 4106)),
      (''xlBeginsWith'', VInt 2),
      (''xlBitmap'', VInt 2),
      (''xlExtractData'', VInt 2),
      (''xlCreatorCode'', VInt 1480803660),
      (''CredentialsMethodIntegrated'', VInt 0),
      (''xlCubeAttribute'', VInt 4),
      (''xlHierarchy'', VInt 1),
      (''xlCopy'', VInt 1),
      (''xlValidAlertInformation'', VInt 3),
      (''xlValidateCustom'', VInt 7),
      (''xlDataBarAxisAutomatic'', VInt 0),
      (''xlDataBarBorderNone'', VInt 0),
      (''xlDataBarFillGradient'', VInt 1),
      (''xlDataBarColor'', VInt 0),
      (''xlLabelPositionAbove'', VInt 0),
      (''xlDataLabelSeparatorDefault'', VInt 1),
      (''xlDataLabelsShowBubbleSizes'', VInt 6),
      (''xlDay'', VInt 1),
      (''xlAutoFill'', VInt 4),
      (''xlShiftToLeft'', VInt (- 4159)),
      (''xlDown'', VInt (- 4121)),
      (''xlInterpolated'', VInt 3),
      (''xlDisplayShapes'', VInt (- 4104)),
      (''xlHundredMillions'', VInt (- 8)),
      (''xlDuplicate'', VInt 1)]"

text \<open>Lines 1100-1199.\<close>
definition constants_1100_1199 :: "(string \<times> val) list" where
  "constants_1100_1199 =
     [(''xlFilterAboveAverage'', VInt 33),
      (''xlBIFF'', VInt 2),
      (''xlAutomaticUpdate'', VInt 4),
      (''xlPublisher'', VInt 1),
      (''xlDisabled'', VInt 0),
      (''xlNoRestrictions'', VInt 0),
      (''xlCap'', VInt 1),
      (''xlX'', VInt (- 4168)),
      (''xlErrorBarIncludeBoth'', VInt 1),
      (''xlErrorBarTypeCustom'', VInt (- 4114)),
      (''xlEmptyCellReferences'', VInt 7),
      (''xlReadOnly'', VInt 3),
      (''xlAddIn'', VInt 18),
      (''xlFileValidationPivotDefault'', VInt 0),
      (''xlFillWithAll'', VInt (- 4104)),
      (''xlFilterCopy'', VInt 2),
      (''xlFilterAllDatesInPeriodDay'', VInt 2),
      (''xlFilterStatusOK'', VInt 0),
      (''xlComments'', VInt (- 4144)),
      (''xlQualityMinimum'', VInt 1),
      (''xlTypePDF'', VInt 0),
      (''xlButtonControl'', VInt 0),
      (''xlBetween'', VInt 1),
      (''xlAboveAverageCondition'', VInt 12),
      (''FilterBottom'', VInt 0),
      (''xlColumnLabels'', VInt 2),
      (''xlA1TableRefs'', VInt 0),
      (''GradientFillLinear'', VInt 0),
      (''xlHAlignCenter'', VInt (- 4108)),
      (''xlHebrewFullScript'', VInt 0),
      (''xlAllChanges'', VInt 2),
      (''xlHtmlCalc'', VInt 1),
      (''xlIMEModeAlpha'', VInt 8),
      (''xlIcon0Bars'', VInt 37),
      (''xl3Arrows'', VInt 1),
      (''xlPivotTableReport'', VInt 1),
      (''xlFormatFromLeftOrAbove'', VInt 0),
      (''xlShiftDown'', VInt (- 4121)),
      (''xlOutline'', VInt 1),
      (''xlCompactRow'', VInt 0),
      (''xlLegendPositionBottom'', VInt (- 4107)),
      (''xlContinuous'', VInt 1),
      (''xlExcelLinks'', VInt 1),
      (''xlEditionDate'', VInt 2),
      (''xlLinkInfoOLELinks'', VInt 2),
      (''xlLinkStatusCopiedValues'', VInt 10),
      (''xlLinkTypeExcelLinks'', VInt 1),
      (''xlListConflictDialog'', VInt 0),
      (''xlListDataTypeCheckbox'', VInt 9),
      (''xlSrcExternal'', VInt 0),
      (''xlColumnHeader'', VInt (- 4110)),
      (''xlPart'', VInt 2),
      (''LookForBlanks'', VInt 0),
      (''xlMicrosoftAccess'', VInt 4),
      (''xlMAPI'', VInt 1),
      (''xlMarkerStyleAutomatic'', VInt (- 4105)),
      (''xlCentimeters'', VInt 1),
      (''xlChangeByExcel'', VInt 0),
      (''xlNoButton'', VInt 0),
      (''xlDefault'', VInt (- 4143)),
      (''xlOLEControl'', VInt 2),
      (''xlVerbOpen'', VInt 2),
      (''xlOartHorizontalOverflowClip'', VInt 1),
      (''xlOartVerticalOverflowClip'', VInt 1),
      (''xlFitToPage'', VInt 2),
      (''xlDownThenOver'', VInt 1),
      (''xlDownward'', VInt (- 4170)),
      (''xlBlanks'', VInt 4),
      (''xlPageBreakAutomatic'', VInt (- 4105)),
      (''xlPageBreakFull'', VInt 1),
      (''xlLandscape'', VInt 2),
      (''xlPaper10x14'', VInt 16),
      (''xlParamTypeBigInt'', VInt (- 5)),
      (''xlConstant'', VInt 1),
      (''xlPasteSpecialOperationAdd'', VInt 2),
      (''xlPasteAll'', VInt (- 4104)),
      (''xlPatternAutomatic'', VInt (- 4105)),
      (''xlPhoneticAlignCenter'', VInt 2),
      (''xlHiragana'', VInt 2),
      (''xlPrinter'', VInt 2),
      (''xlBMP'', VInt 1),
      (''xlCenterPoint'', VInt 5),
      (''xlHorizontalCoordinate'', VInt 1),
      (''xlPivotCellBlankCell'', VInt 9),
      (''xlDataFieldScope'', VInt 2),
      (''xlDifferenceFrom'', VInt 2),
      (''xlDate'', VInt 2),
      (''xlColumnField'', VInt 2),
      (''xlDoNotRepeatLabels'', VInt 1),
      (''xlBefore'', VInt 31),
      (''xlPTClassic'', VInt 20),
      (''xlPivotLineBlank'', VInt 3),
      (''xlMissingItemsDefault'', VInt (- 1)),
      (''xlConsolidation'', VInt 3),
      (''xlPivotTableVersion2000'', VInt 0),
      (''xlFreeFloating'', VInt 3),
      (''xlMacintosh'', VInt 1),
      (''xlPortugueseBoth'', VInt 3),
      (''xlPrintErrorsBlank'', VInt 1),
      (''xlPrintInPlace'', VInt 16)]"

text \<open>Lines 1200-1299.\<close>
definition constants_1200_1299 :: "(string \<times> val) list" where
  "constants_1200_1299 =
     [(''xlPriorityHigh'', VInt (- 4127)),
      (''xlDisplayPropertyInPivotTable'', VInt 1),
      (''xlProtectedViewCloseEdit'', VInt 1),
      (''xlProtectedViewWindowMaximized'', VInt 2),
      (''xlADORecordset'', VInt 7),
      (''xlLensOnly'', VInt 0),
      (''xlRangeAutoFormat3DEffects1'', VInt 13),
      (''xlRangeValueDefault'', VInt 10),
      (''xlA1'', VInt 1),
      (''xlAbsolute'', VInt 1),
      (''xlRDIAll'', VInt 99),
      (''rgbAliceBlue'', VInt 16775408),
      (''xlAlways'', VInt 1),
      (''xlColumns'', VInt 2),
      (''xlAutoActivate'', VInt 3),
      (''xlDoNotSaveChanges'', VInt 2),
      (''xlExclusive'', VInt 3),
      (''xlLocalSessionChanges'', VInt 2),
      (''xlScaleLinear'', VInt (- 4132)),
      (''xlNext'', VInt 1),
      (''xlByColumns'', VInt 2),
      (''xlWithinSheet'', VInt 1),
      (''xlChart'', VInt (- 4109)),
      (''xlSheetHidden'', VInt 0),
      (''xlSizeIsArea'', VInt 1),
      (''xlSlicer'', VInt 1),
      (''xlSlicerCrossFilterHideButtonsWithNoData'', VInt 4),
      (''xlSlicerSortAscending'', VInt 2),
      (''xlSortNormal'', VInt 0),
      (''xlPinYin'', VInt 1),
      (''xlCodePage'', VInt 2),
      (''SortOnCellColor'', VInt 1),
      (''xlAscending'', VInt 1),
      (''xlSortColumns'', VInt 1),
      (''xlSortLabels'', VInt 2),
      (''xlSourceAutoFilter'', VInt 3),
      (''xlSpanishTuteoAndVoseo'', VInt 1),
      (''xlSparkScaleCustom'', VInt 3),
      (''xlSparkColumn'', VInt 2),
      (''SparklineColumnsSquare'', VInt 2),
      (''xlSpeakByColumns'', VInt 1),
      (''xlErrors'', VInt 16),
      (''ColorScaleBlackWhite'', VInt 3),
      (''xlSubscribeToPicture'', VInt (- 4147)),
      (''xlAtBottom'', VInt 2),
      (''xlSummaryOnLeft'', VInt (- 4131)),
      (''xlStandardSummary'', VInt 1),
      (''xlSummaryAbove'', VInt 0),
      (''xlTabPositionFirst'', VInt 0),
      (''xlBlankRow'', VInt 19),
      (''xlDelimited'', VInt 1),
      (''xlTextQualifierDoubleQuote'', VInt 1),
      (''xlTextVisualLTR'', VInt 1),
      (''xlThemeColorAccent1'', VInt 5),
      (''xlThemeFontMajor'', VInt 2),
      (''xlThreadModeAutomatic'', VInt 0),
      (''xlTickLabelOrientationAutomatic'', VInt (- 4105)),
      (''xlTickLabelPositionHigh'', VInt (- 4127)),
      (''xlTickMarkCross'', VInt 4),
      (''xlLast7Days'', VInt 2),
      (''xlDays'', VInt 0),
      (''xlTimelineLevelYears'', VInt 0),
      (''xlNoButtonChanges'', VInt 1),
      (''xlTop10Bottom'', VInt 0),
      (''xlTotalsCalculationAverage'', VInt 2),
      (''xlExponential'', VInt 5),
      (''xlUnderlineStyleDouble'', VInt (- 4119)),
      (''xlUpdateLinksAlways'', VInt 3),
      (''xlVAlignBottom'', VInt (- 4107)),
      (''xlWBATChart'', VInt (- 4109)),
      (''xlWebFormattingAll'', VInt 1),
      (''xlAllTables'', VInt 2),
      (''xlMaximized'', VInt (- 4137)),
      (''xlChartAsWindow'', VInt 5),
      (''xlNormalView'', VInt 1),
      (''xlCommand'', VInt 2),
      (''xlXmlExportSuccess'', VInt 0),
      (''xlXmlImportElementsTruncated'', VInt 1),
      (''xlXmlLoadImportToList'', VInt 2),
      (''xlGuess'', VInt 0),
      (''xlNumberFormatTypeDefault'', VInt 0),
      (''xlNumberFormatTypeNumber'', VInt 1),
      (''xlNumberFormatTypePercent'', VInt 2),
      (''xlCategoryLabelLevelAll'', VInt (- 1)),
      (''xlCategoryLabelLevelCustom'', VInt (- 2)),
      (''xlCategoryLabelLevelNone'', VInt (- 3)),
      (''xlCategoryLabelLevelAll'', VInt (- 1)),
      (''xlCategoryLabelLevelCustom'', VInt (- 2)),
      (''xlCategoryLabelLevelNone'', VInt (- 3)),
      (''xlChartElementPositionAutomatic'', VInt (- 4105)),
      (''xlChartElementPositionCustom'', VInt (- 4114)),
      (''xlColorIndexAutomatic'', VInt (- 4105)),
      (''xlColorIndexNone'', VInt (- 4142)),
      (''xlShiftToLeft'', VInt (- 4159)),
      (''xlShiftUp'', VInt (- 4162)),
      (''xlDown'', VInt (- 4121)),
      (''xlToLeft'', VInt (- 4159)),
      (''xlToRight'', VInt (- 4161)),
      (''xlUp'', VInt (- 4162)),
      (''xlForecastAggregationAverage'', VInt 1)]"

text \<open>Lines 1300-1401.\<close>
definition constants_1300_1401 :: "(string \<times> val) list" where
  "constants_1300_1401 =
     [(''xlForecastAggregationCount'', VInt 2),
      (''xlForecastAggregationCountA'', VInt 3),
      (''xlForecastAggregationMax'', VInt 4),
      (''xlForecastAggregationMedian'', VInt 5),
      (''xlForecastAggregationMin'', VInt 6),
      (''xlForecastAggregationSum'', VInt 7),
      (''xlForecastDataCompletionInterpolate'', VInt 1),
      (''xlForecastDataCompletionZeros'', VInt 0),
      (''xlParentDataLabelOptionsBanner'', VInt 1),
      (''xlParentDataLabelOptionsNone'', VInt 0),
      (''xlParentDataLabelOptionsOverlapping'', VInt 2),
      (''xlSeriesNameLevelAll'', VInt (- 1)),
      (''xlSeriesNameLevelCustom'', VInt (- 2)),
      (''xlSeriesNameLevelNone'', VInt (- 3)),
      (''msoAnimAccumulateAlways'', VInt 2),
      (''msoAnimAdditiveAddBase'', VInt 1),
      (''msoAnimAfterEffectDim'', VInt 1),
      (''msoAnimateChartAllAtOnce'', VInt 7),
      (''msoAnimCommandTypeCall'', VInt 1),
      (''msoAnimDirectionAcross'', VInt 18),
      (''msoAnimEffectAppear'', VInt 1),
      (''msoAnimEffectAfterFreeze'', VInt 1),
      (''msoAnimEffectRestartAlways'', VInt 1),
      (''msoAnimFilterEffectSubtypeAcross'', VInt 9),
      (''msoAnimFilterEffectTypeBarn'', VInt 1),
      (''msoAnimColor'', VInt 7),
      (''msoAnimTextUnitEffectByCharacter'', VInt 1),
      (''msoAnimTriggerAfterPrevious'', VInt 3),
      (''msoAnimTypeColor'', VInt 2),
      (''msoClickStateAfterAllAnimations'', VInt (- 2)),
      (''ppActionEndShow'', VInt 6),
      (''ppAdvanceModeMixed'', VInt (- 2)),
      (''ppAfterEffectDim'', VInt 2),
      (''ppAlertsAll'', VInt 2),
      (''ppArrangeCascade'', VInt 2),
      (''ppAutoSizeMixed'', VInt (- 2)),
      (''ppBaselineAlignBaseline'', VInt 1),
      (''ppBorderBottom'', VInt 3),
      (''ppBulletMixed'', VInt (- 2)),
      (''ppCaseLower'', VInt 2),
      (''ppAnimateByCategory'', VInt 2),
      (''ppCheckInMajorVersion'', VInt 1),
      (''ppAccent1'', VInt 6),
      (''ppDateTimeddddMMMMddyyyy'', VInt 2),
      (''ppDirectionLeftToRight'', VInt 1),
      (''ppEffectAppear'', VInt 3844),
      (''ppFarEastLineBreakLevelCustom'', VInt 3),
      (''ppFixedFormatIntentPrint'', VInt 2),
      (''ppFixedFormatTypePDF'', VInt 2),
      (''ppFollowColorsMixed'', VInt (- 2)),
      (''ppFrameColorsBlackTextOnWhite'', VInt 5),
      (''ppHorizontalGuide'', VInt 1),
      (''ppHTMLAutodetect'', VInt 4),
      (''ppIndentControlMixed'', VInt (- 2)),
      (''ppMediaTaskStatusNone'', VInt 0),
      (''ppMediaTypeMixed'', VInt (- 2)),
      (''ppMouseClick'', VInt 1),
      (''ppBulletAlphaLCParenBoth'', VInt 8),
      (''ppAlignCenter'', VInt 2),
      (''ppPasteBitmap'', VInt 1),
      (''ppPlaceholderBitmap'', VInt 9),
      (''ppPlaying'', VInt 0),
      (''ppPrintBlackAndWhite'', VInt 2),
      (''ppPrintHandoutHorizontalFirst'', VInt 2),
      (''ppPrintOutputBuildSlides'', VInt 7),
      (''ppPrintAll'', VInt 1),
      (''ppProtectedViewCloseNormal'', VInt 0),
      (''ppPublishAll'', VInt 1),
      (''ppRDIAll'', VInt 99),
      (''ppResampleMediaProfileCustom'', VInt 1),
      (''ppRevisionInfoBaseline'', VInt 1),
      (''ppSaveAsAddIn'', VInt 8),
      (''ppSelectionNone'', VInt 0),
      (''ppLayoutBlank'', VInt 12),
      (''ppSlideShowManualAdvance'', VInt 1),
      (''ppSlideShowPointerAlwaysHidden'', VInt 3),
      (''ppShowAll'', VInt 1),
      (''ppSlideShowBlackScreen'', VInt 3),
      (''ppShowTypeKiosk'', VInt 3),
      (''ppSlideSize35MM'', VInt 4),
      (''ppSoundEffectsMixed'', VInt (- 2)),
      (''ppSoundFormatCDAudio'', VInt 3),
      (''ppTabStopCenter'', VInt 2),
      (''ppAnimateByAllLevels'', VInt 16),
      (''ppBodyStyle'', VInt 3),
      (''ppAnimateByCharacter'', VInt 2),
      (''ppTransitionSpeedFast'', VInt 3),
      (''ppUpdateOptionAutomatic'', VInt 2),
      (''ppViewHandoutMaster'', VInt 4),
      (''ppWindowMaximized'', VInt 3),
      (''xlAxisCrossesAutomatic'', VInt (- 4105)),
      (''xlPrimary'', VInt 1),
      (''xlCategory'', VInt 1),
      (''xlBackgroundAutomatic'', VInt (- 4105)),
      (''xlBox'', VInt 0),
      (''xlBinsTypeAutomatic'', VInt 0),
      (''xlHairline'', VInt 1),
      (''xlCategoryLabelLevelAll'', VInt (- 1)),
      (''xlAutomaticScale'', VInt (- 4105)),
      (''xlChartElementPositionAutomatic'', VInt (- 4105))]"

text \<open>Lines 1402-1442.\<close>
definition constants_1402_1442 :: "(string \<times> val) list" where
  "constants_1402_1442 =
     [(''xlAnyGallery'', VInt 23),
      (''xlAxis'', VInt 21),
      (''xlAllFaces'', VInt 7),
      (''xlStack'', VInt 2),
      (''xlSplitByCustomSplit'', VInt 4),
      (''xlColorIndexAutomatic'', VInt (- 4105)),
      (''xl3DBar'', VInt (- 4099)),
      (''xlBitmap'', VInt 2),
      (''xlLabelPositionAbove'', VInt 0),
      (''xlDataLabelSeparatorDefault'', VInt 1),
      (''xlDataLabelsShowBubbleSizes'', VInt 6),
      (''xlInterpolated'', VInt 3),
      (''xlHundredMillions'', VInt (- 8)),
      (''xlCap'', VInt 1),
      (''xlChartX'', VInt (- 4168)),
      (''xlErrorBarIncludeBoth'', VInt 1),
      (''xlErrorBarTypeCustom'', VInt (- 4114)),
      (''xlHAlignCenter'', VInt (- 4108)),
      (''xlLegendPositionBottom'', VInt (- 4107)),
      (''xlContinuous'', VInt 1),
      (''xlMarkerStyleAutomatic'', VInt (- 4105)),
      (''xlDownward'', VInt (- 4170)),
      (''xlParentDataLabelOptionsNone'', VInt 0),
      (''xlPatternAutomatic'', VInt (- 4105)),
      (''xlPrinter'', VInt 2),
      (''xlCenterPoint'', VInt 5),
      (''xlCenterPoint'', VInt 5),
      (''xlColumnField'', VInt 2),
      (''xlContext'', VInt (- 5002)),
      (''xlAliceBlue'', VInt 16775408),
      (''xlColumns'', VInt 2),
      (''xlScaleLinear'', VInt (- 4132)),
      (''xlSeriesNameLevelAll'', VInt (- 1)),
      (''xlSizeIsArea'', VInt 1),
      (''xlTickLabelOrientationAutomatic'', VInt (- 4105)),
      (''xlTickLabelPositionHigh'', VInt (- 4127)),
      (''xlTickMarkCross'', VInt 4),
      (''xlDays'', VInt 0),
      (''xlExponential'', VInt 5),
      (''xlUnderlineStyleDouble'', VInt (- 4119)),
      (''xlVAlignBottom'', VInt (- 4107))]"

definition seeded_constants :: "val \<Rightarrow> (string \<times> val) list" where
  "seeded_constants now =
     constants_160_263 now @
     constants_264_363 @
     constants_364_463 @
     constants_464_568 @
     constants_569_673 @
     constants_674_791 @
     constants_792_893 @
     constants_894_993 @
     constants_994_1099 @
     constants_1100_1199 @
     constants_1200_1299 @
     constants_1300_1401 @
     constants_1402_1442"

text \<open>
  The assignments of lines 160-1442, in order: each \<^verbatim>\<open>self.globals[k.lower()] = v\<close>
  overwrites the entry of the lowercased name.
\<close>

definition seed :: "(string \<rightharpoonup> val) \<Rightarrow> (string \<times> val) list \<Rightarrow> (string \<rightharpoonup> val)" where
  "seed g kvs = foldl (\<lambda>m (k, v). m(lower k \<mapsto> v)) g kvs"

text \<open>The value that a sequence of such assignments assigns last to a name, if any.\<close>

fun last_assigned :: "(string \<times> val) list \<Rightarrow> string \<Rightarrow> val option" where
  "last_assigned [] k = None"
| "last_assigned ((k', v) # kvs) k =
     (case last_assigned kvs k of
        Some r \<Rightarrow> Some r
      | None \<Rightarrow> if lower k' = k then Some v else None)"

subsection \<open>Heap, context objects and the constructor\<close>

record heap =
  val_dicts :: "nat \<rightharpoonup> (string \<rightharpoonup> val)"
  file_dicts :: "nat \<rightharpoonup> (string \<rightharpoonup> file_handle)"
  data_dicts :: "nat \<rightharpoonup> (string \<rightharpoonup> int list)"
  name_dicts :: "nat \<rightharpoonup> (string \<rightharpoonup> string)"
  engines :: "nat \<rightharpoonup> (string \<times> string \<times> string) list"
  fresh :: nat

record Context_object =
  ref_dll_func_true_names :: nat
  obj_tagged_blocks :: "string \<rightharpoonup> val"
  obj_loaded_excel :: "(string \<rightharpoonup> sheet) option"
  ref_open_files :: nat
  ref_closed_files :: nat
  ref_globals :: nat
  obj_locals :: "string \<rightharpoonup> val"
  ref_engine :: "nat option"
  ref_doc_vars :: nat
  obj_loop_stack :: "bool list"
  obj_exit_func :: bool
  obj_types :: "string \<rightharpoonup> val"
  obj_with_prefix :: string

text \<open>A new empty dictionary \<^verbatim>\<open>{}\<close> of each kind, at the next free address.\<close>

definition new_val_dict :: "heap \<Rightarrow> nat \<times> heap" where
  "new_val_dict h = (fresh h, h\<lparr>val_dicts := (val_dicts h)(fresh h \<mapsto> Map.empty), fresh := Suc (fresh h)\<rparr>)"

definition new_file_dict :: "heap \<Rightarrow> nat \<times> heap" where
  "new_file_dict h = (fresh h, h\<lparr>file_dicts := (file_dicts h)(fresh h \<mapsto> Map.empty), fresh := Suc (fresh h)\<rparr>)"

definition new_data_dict :: "heap \<Rightarrow> nat \<times> heap" where
  "new_data_dict h = (fresh h, h\<lparr>data_dicts := (data_dicts h)(fresh h \<mapsto> Map.empty), fresh := Suc (fresh h)\<rparr>)"

definition new_name_dict :: "heap \<Rightarrow> nat \<times> heap" where
  "new_name_dict h = (fresh h, h\<lparr>name_dicts := (name_dicts h)(fresh h \<mapsto> Map.empty), fresh := Suc (fresh h)\<rparr>)"

text \<open>The dictionary at an address; an address that holds none reads as empty.\<close>

definition val_dict_at :: "heap \<Rightarrow> nat \<Rightarrow> (string \<rightharpoonup> val)" where
  "val_dict_at h a = (case val_dicts h a of Some m \<Rightarrow> m | None \<Rightarrow> Map.empty)"

text \<open>
  \<^verbatim>\<open>Context.__init__\<close>. The arguments are those of the source, a dictionary argument
  being the address of the dictionary (\<open>_locals\<close> is copied, so it is passed by
  value); \<open>now\<close> is the value of \<^verbatim>\<open>datetime.now()\<close>.
\<close>

definition Context_init ::
  "heap \<Rightarrow> nat option \<Rightarrow> (string \<rightharpoonup> val) option \<Rightarrow> Context_object option \<Rightarrow> nat option \<Rightarrow>
   nat option \<Rightarrow> (string \<rightharpoonup> sheet) option \<Rightarrow> val \<Rightarrow> heap \<times> Context_object"
where
  "Context_init h0 globals_arg locals_arg context engine_arg doc_vars_arg loaded_excel_arg now =
     (let (dll0, h1) = new_name_dict h0;
          (open0, h2) = new_file_dict h1;
          (closed0, h3) = new_data_dict h2;
          (globals_ref, open_ref, closed_ref, excel, dll_ref, h4) =
             (case globals_arg of
                Some g \<Rightarrow> (g, open0, closed0, loaded_excel_arg, dll0, h3)
              | None \<Rightarrow>
                  (case context of
                     Some p \<Rightarrow> (ref_globals p, ref_open_files p, ref_closed_files p,
                                obj_loaded_excel p, ref_dll_func_true_names p, h3)
                   | None \<Rightarrow> (let (g, h) = new_val_dict h3
                               in (g, open0, closed0, loaded_excel_arg, dll0, h))));
          locals_val = (case locals_arg of Some l \<Rightarrow> l | None \<Rightarrow> Map.empty);
          engine_ref = (case engine_arg of
                          Some e \<Rightarrow> Some e
                        | None \<Rightarrow> (case context of Some p \<Rightarrow> ref_engine p | None \<Rightarrow> None));
          (doc_ref, h5) =
             (case doc_vars_arg of
                Some d \<Rightarrow> (d, h4)
              | None \<Rightarrow> (case context of
                           Some p \<Rightarrow> (ref_doc_vars p, h4)
                         | None \<Rightarrow> new_val_dict h4));
          h6 = h5\<lparr>val_dicts := (val_dicts h5)
                   (globals_ref \<mapsto> seed (val_dict_at h5 globals_ref) (seeded_constants now))\<rparr>
      in (h6,
          \<lparr>ref_dll_func_true_names = dll_ref, obj_tagged_blocks = Map.empty,
           obj_loaded_excel = excel, ref_open_files = open_ref, ref_closed_files = closed_ref,
           ref_globals = globals_ref, obj_locals = locals_val, ref_engine = engine_ref,
           ref_doc_vars = doc_ref, obj_loop_stack = [], obj_exit_func = False,
           obj_types = Map.empty, obj_with_prefix = []\<rparr>))"

text \<open>What a context object denotes in a heap: the context with the dictionaries read.\<close>

definition view :: "heap \<Rightarrow> Context_object \<Rightarrow> Context" where
  "view h obj =
     \<lparr>dll_func_true_names =
        (case name_dicts h (ref_dll_func_true_names obj) of Some m \<Rightarrow> m | None \<Rightarrow> Map.empty),
      tagged_blocks = obj_tagged_blocks obj,
      loaded_excel = obj_loaded_excel obj,
      open_files = (case file_dicts h (ref_open_files obj) of Some m \<Rightarrow> m | None \<Rightarrow> Map.empty),
      closed_files = (case data_dicts h (ref_closed_files obj) of Some m \<Rightarrow> m | None \<Rightarrow> Map.empty),
      globals = val_dict_at h (ref_globals obj),
      locals = obj_locals obj,
      engine = (case ref_engine obj of None \<Rightarrow> None | Some e \<Rightarrow> engines h e),
      doc_vars = val_dict_at h (ref_doc_vars obj),
      loop_stack = obj_loop_stack obj,
      exit_func = obj_exit_func obj,
      types = obj_types obj,
      with_prefix = obj_with_prefix obj,
      logged = []\<rparr>"


section \<open>Properties of the lookup\<close>

lemma private_get_VStr:
  "private_get L c (VStr n) =
     (case locals c (lower n) of Some v \<Rightarrow> Inr v
      | None \<Rightarrow> (case globals c (lower n) of Some v \<Rightarrow> Inr v
                 | None \<Rightarrow> (case L (lower n) of Some v \<Rightarrow> Inr v | None \<Rightarrow> Inl KeyError)))"
  by (simp add: Let_def)

lemma private_get_error: "private_get L c n = Inl e \<Longrightarrow> e = KeyError"
  by (cases n) (auto simp: Let_def split: option.splits)

text \<open>
  Claim C1. \<^verbatim>\<open>Context.get\<close> tries the name forms \<open>with_prefix + name\<close>, \<open>name\<close> and
  \<open>name + "$"\<close> in this order; each form, lowercased, is looked up in \<open>locals\<close>, then
  in \<open>globals\<close>, then in the built-in library, and the first hit is returned. The
  lookup fails, with \<open>KeyError\<close> and no other error, exactly when all three forms miss
  in all three tiers.
\<close>

theorem get_three_forms_three_tiers:
  "get VBA_LIBRARY c name = get_spec VBA_LIBRARY c (py_str name) \<and>
   ((\<exists>e. get VBA_LIBRARY c name = Inl e) \<longleftrightarrow>
      (\<forall>n \<in> set (name_forms c (py_str name)). \<forall>tier \<in> set (tiers VBA_LIBRARY c).
         tier (lower n) = None)) \<and>
   (\<forall>e. get VBA_LIBRARY c name = Inl e \<longrightarrow> e = KeyError)"
proof -
  let ?p = "lower (with_prefix c @ py_str name)"
  let ?n = "lower (py_str name)"
  let ?d = "lower (py_str name @ ''$'')"
  have eq: "get VBA_LIBRARY c name = get_spec VBA_LIBRARY c (py_str name)"
    by (simp add: get_def get_spec_def name_forms_def tiers_def List.map_filter_def Let_def
        split: option.splits)
  have miss: "(\<exists>e. get_spec VBA_LIBRARY c (py_str name) = Inl e) \<longleftrightarrow>
      (\<forall>n \<in> set (name_forms c (py_str name)). \<forall>tier \<in> set (tiers VBA_LIBRARY c).
         tier (lower n) = None)"
    by (simp add: get_spec_def name_forms_def tiers_def List.map_filter_def
        split: option.splits)
  have err: "\<forall>e. get_spec VBA_LIBRARY c (py_str name) = Inl e \<longrightarrow> e = KeyError"
    by (simp add: get_spec_def split: list.splits)
  from eq miss err show ?thesis by simp
qed

theorem get_three_forms_three_tiers_witness:
  "get (Map.empty(''x$'' \<mapsto> VInt 3))
       (blank_context\<lparr>globals := Map.empty(''x'' \<mapsto> VInt 2),
                       locals := Map.empty(''w.x'' \<mapsto> VInt 1),
                       with_prefix := ''w.''\<rparr>) (VStr ''X'') = Inr (VInt 1) \<and>
   get Map.empty (blank_context\<lparr>with_prefix := ''w.''\<rparr>) (VStr ''X'') = Inl KeyError"
proof -
  let ?L = "Map.empty(''x$'' \<mapsto> VInt 3)"
  let ?c1 = "blank_context\<lparr>globals := Map.empty(''x'' \<mapsto> VInt 2),
                       locals := Map.empty(''w.x'' \<mapsto> VInt 1),
                       with_prefix := ''w.''\<rparr>"
  let ?c2 = "blank_context\<lparr>with_prefix := ''w.''\<rparr>"
  note t1 = get_three_forms_three_tiers [of ?L ?c1 "VStr ''X''"]
  note t2 = get_three_forms_three_tiers [of Map.empty ?c2 "VStr ''X''"]
  from t1 have a: "get ?L ?c1 (VStr ''X'') = get_spec ?L ?c1 (py_str (VStr ''X''))"
    by (rule conjunct1)
  have b: "get_spec ?L ?c1 (py_str (VStr ''X'')) = Inr (VInt 1)"
    by (simp add: get_spec_def name_forms_def tiers_def List.map_filter_def
        lower_def lower_char_def blank_context_def)
  from t2 have iff: "(\<exists>e. get Map.empty ?c2 (VStr ''X'') = Inl e) \<longleftrightarrow>
      (\<forall>n \<in> set (name_forms ?c2 (py_str (VStr ''X''))). \<forall>tier \<in> set (tiers Map.empty ?c2).
         tier (lower n) = None)"
    by (rule conjunct1 [OF conjunct2])
  have miss: "\<forall>n \<in> set (name_forms ?c2 (py_str (VStr ''X''))). \<forall>tier \<in> set (tiers Map.empty ?c2).
         tier (lower n) = None"
    by (simp add: name_forms_def tiers_def blank_context_def)
  from iff miss have c: "\<exists>e. get Map.empty ?c2 (VStr ''X'') = Inl e"
    by (rule iffD2)
  from t2 have d: "\<forall>e. get Map.empty ?c2 (VStr ''X'') = Inl e \<longrightarrow> e = KeyError"
    by (rule conjunct2 [OF conjunct2])
  from c d have "get Map.empty ?c2 (VStr ''X'') = Inl KeyError" by blast
  with a b show ?thesis by simp
qed

section \<open>Properties of the safety governor\<close>

text \<open>
  Claim C7. \<^verbatim>\<open>limits_exceeded\<close> reports a violation exactly when the stack depth is
  above 0.75 of the recursion limit or, with a deadline configured, the clock is past
  the deadline. With \<open>throw_error\<close> set it raises under exactly those conditions and
  returns \<open>False\<close> otherwise: at depth 76 of a limit of 100 it raises, at depth 50 with
  no deadline it returns \<open>False\<close>.
\<close>

theorem limits_exceeded_exact:
  "limits_exceeded level recursionlimit now max_emulation_time False =
     Inr (4 * level > 3 * recursionlimit \<or> (\<exists>t. max_emulation_time = Some t \<and> now > t)) \<and>
   ((\<exists>e. limits_exceeded level recursionlimit now max_emulation_time True = Inl e) \<longleftrightarrow>
     (4 * level > 3 * recursionlimit \<or> (\<exists>t. max_emulation_time = Some t \<and> now > t))) \<and>
   ((limits_exceeded level recursionlimit now max_emulation_time True = Inr False) \<longleftrightarrow>
     \<not> (4 * level > 3 * recursionlimit \<or> (\<exists>t. max_emulation_time = Some t \<and> now > t))) \<and>
   (\<exists>e. limits_exceeded 76 100 now max_emulation_time True = Inl e) \<and>
   limits_exceeded 50 100 now None True = Inr False"
proof -
  have r: "\<And>l m :: nat. (rat_of_nat l > rat_of_nat m * (75 / 100)) \<longleftrightarrow> 4 * l > 3 * m"
  proof -
    fix l m :: nat
    have "(rat_of_nat l > rat_of_nat m * (75 / 100)) \<longleftrightarrow> (rat_of_nat (4 * l) > rat_of_nat (3 * m))"
      by (simp add: field_simps)
    also have "\<dots> \<longleftrightarrow> 4 * l > 3 * m"
      by (simp only: of_nat_less_iff)
    finally show "(rat_of_nat l > rat_of_nat m * (75 / 100)) \<longleftrightarrow> 4 * l > 3 * m" .
  qed
  show ?thesis
    unfolding limits_exceeded_def Let_def r
    by (cases max_emulation_time) auto
qed

section \<open>Properties of the bulk coercion\<close>

lemma find_first_type_other:
  "\<not> list_all is_str_or_int args \<Longrightarrow> \<exists>ft. find_first_type args (first_type, h, a) = (ft, True, False)"
proof (induction args arbitrary: first_type a)
  case Nil
  then show ?case by simp
next
  case (Cons x xs)
  show ?case
  proof (cases x)
    case (VStr s)
    with Cons show ?thesis by simp
  next
    case (VInt i)
    with Cons show ?thesis by simp
  qed simp_all
qed

lemma find_first_type_typed:
  "list_all is_str_or_int args \<Longrightarrow>
   find_first_type args (first_type, h, a) =
     (case List.find (\<lambda>x. x \<noteq> VStr ''NULL'') args of
        None \<Rightarrow> (first_type, h, a)
      | Some v \<Rightarrow> (if first_type = None then (case v of VStr s \<Rightarrow> Some ''str'' | _ \<Rightarrow> Some ''int'')
                   else first_type, h, False))"
proof (induction args arbitrary: first_type a)
  case Nil
  then show ?case by simp
next
  case (Cons x xs)
  from Cons.prems have xs: "list_all is_str_or_int xs" by simp
  show ?case
  proof (cases x)
    case (VStr s)
    then show ?thesis
      using Cons.IH [OF xs] by (auto split: option.splits val.splits)
  next
    case (VInt i)
    then show ?thesis
      using Cons.IH [OF xs] by (auto split: option.splits val.splits)
  qed (use Cons.prems in simp_all)
qed

lemma coerce_args_to_int_all_null:
  "List.find (\<lambda>a. a \<noteq> VStr ''NULL'') args = None \<Longrightarrow>
   coerce_args_to_int args = Inr (map (\<lambda>a. VInt 0) args)"
  by (induction args) (auto simp: coerce_to_int_def split: if_splits)

lemma list_equals_str_never:
  "(\<lambda>arg. if list_equals_str args s then x else arg) = (\<lambda>arg. arg)"
  by (simp add: list_equals_str_def)

lemma find_Some_is_str_or_int:
  "list_all is_str_or_int args \<Longrightarrow> List.find P args = Some v \<Longrightarrow> is_str_or_int v"
  by (induction args) (auto split: if_splits)

text \<open>
  Claim C5, as amended. \<^verbatim>\<open>coerce_args\<close> first maps \<^verbatim>\<open>None\<close> to \<^verbatim>\<open>"NULL"\<close>. If an
  element is neither a string nor an integer the mapped list is returned as it is.
  Otherwise a list of \<^verbatim>\<open>"NULL"\<close>s only is coerced to integers, every element becoming
  \<open>0\<close>; and a list with a first element other than \<^verbatim>\<open>"NULL"\<close> is coerced to the type
  of that element, \<^verbatim>\<open>"NULL"\<close> becoming the empty string or zero (the integer coercion
  raising on text that is no number).
\<close>

theorem coerce_args_refines_spec: "coerce_args orig_args = coerce_args_spec orig_args"
proof (cases "orig_args = []")
  case True
  then show ?thesis by (simp add: coerce_args_def coerce_args_spec_def)
next
  case False
  let ?args = "map null_of_none orig_args"
  have m: "map (\<lambda>arg. if arg = VNone then VStr ''NULL'' else arg) orig_args = ?args"
    by (simp add: null_of_none_def)
  show ?thesis
  proof (cases "list_all is_str_or_int ?args")
    case other: False
    then obtain ft where "find_first_type ?args (None, False, True) = (ft, True, False)"
      using find_first_type_other by blast
    with False other show ?thesis
      by (simp add: coerce_args_def coerce_args_spec_def m)
  next
    case typed: True
    note sc = find_first_type_typed [OF typed, of None False True]
    show ?thesis
    proof (cases "List.find (\<lambda>a. a \<noteq> VStr ''NULL'') ?args")
      case None
      with False typed sc show ?thesis
        by (simp add: coerce_args_def coerce_args_spec_def m list_equals_str_never
            coerce_args_to_int_all_null del: map_map)
    next
      case (Some v)
      from find_Some_is_str_or_int [OF typed Some] have "is_str_or_int v" .
      then show ?thesis
      proof (cases v)
        case (VStr s)
        with False typed sc Some show ?thesis
          by (simp add: coerce_args_def coerce_args_spec_def m list_equals_str_never
              coerce_args_to_str_def del: map_map)
      next
        case (VInt i)
        with False typed sc Some show ?thesis
          by (simp add: coerce_args_def coerce_args_spec_def m list_equals_str_never
              del: map_map)
      qed simp_all
    qed
  qed
qed

text \<open>
  The claim as first stated has a list without any typed element returned unchanged.
  A list of two \<^verbatim>\<open>None\<close>s has no typed element, and comes back as two zeros.
\<close>

theorem coerce_args_all_null_counterexample:
  "list_all (\<lambda>a. null_of_none a = VStr ''NULL'') [VNone, VNone] \<and>
   coerce_args [VNone, VNone] = Inr [VInt 0, VInt 0] \<and>
   coerce_args [VNone, VNone] \<noteq> Inr (map null_of_none [VNone, VNone]) \<and>
   coerce_args [VNone, VNone] \<noteq> Inr [VNone, VNone]"
  by (simp add: coerce_args_def null_of_none_def coerce_to_int_def list_equals_str_def Let_def)

section \<open>Properties of the simulated files\<close>

lemma replace_single_empty:
  "replace [x] [] s = filter (\<lambda>c. c \<noteq> x) s"
proof (induction s)
  case Nil
  show ?case by (simp add: replace.simps [of "[x]" "[]" "[]"])
next
  case (Cons a s)
  show ?case
    using Cons by (simp add: replace.simps [of "[x]" "[]" "a # s"] startswith_def)
qed

text \<open>
  Claim C9, as amended. For a handle that is open, on a context with an engine attached and a
  buffer of bytes, \<^verbatim>\<open>dump_file\<close> stores the buffer in \<open>closed_files\<close> under the
  handle's recorded name without its \<open>#\<close> characters, removes the handle from
  \<open>open_files\<close>, and reports the action \<^verbatim>\<open>Dropped File Hash\<close> with the SHA-256 digest of
  the buffer; nothing else changes and no exception leaves the call. For a handle that
  is not open, an error is logged and the context is otherwise unchanged.
\<close>

theorem dump_file_moves_buffer:
  "(open_files c (py_str file_id) = Some handle \<and> engine c = Some actions \<and>
    list_all (\<lambda>b. 0 \<le> b \<and> b < 256) (file_contents handle) \<longrightarrow>
      dump_file sha256_hexdigest c file_id =
        (c\<lparr>closed_files :=
              (closed_files c)(filter (\<lambda>ch. ch \<noteq> CHR ''#'') (file_name handle) \<mapsto> file_contents handle),
           open_files := (open_files c)(py_str file_id := None),
           engine := Some (actions @
              [(''Dropped File Hash'', sha256_hexdigest (file_contents handle),
                ''File Name: '' @ filter (\<lambda>ch. ch \<noteq> CHR ''#'') (file_name handle))])\<rparr>, None)) \<and>
   (open_files c (py_str file_id) = None \<longrightarrow>
      dump_file sha256_hexdigest c file_id =
        (c\<lparr>logged := logged c @ [''File '' @ py_str file_id @ '' not open. Cannot save.'']\<rparr>, None))"
  by (simp add: dump_file_def Let_def array_B_tostring_def report_action_def
      replace_single_empty)

theorem dump_file_moves_buffer_witness:
  "dump_file (\<lambda>bs. ''digest'')
       ((open_file (blank_context\<lparr>engine := Some []\<rparr>) ''#1'')
          \<lparr>open_files := Map.empty(''#1'' \<mapsto> \<lparr>file_name = ''#1'', file_contents = [104, 105]\<rparr>)\<rparr>)
       (VStr ''#1'') =
     (blank_context\<lparr>closed_files := Map.empty(''1'' \<mapsto> [104, 105]),
                    open_files := Map.empty,
                    engine := Some [(''Dropped File Hash'', ''digest'', ''File Name: 1'')]\<rparr>, None) \<and>
   dump_file (\<lambda>bs. ''digest'') blank_context (VStr ''#2'') =
     (blank_context\<lparr>logged := [''File #2 not open. Cannot save.'']\<rparr>, None)"
proof -
  let ?c = "(open_file (blank_context\<lparr>engine := Some []\<rparr>) ''#1'')
          \<lparr>open_files := Map.empty(''#1'' \<mapsto> \<lparr>file_name = ''#1'', file_contents = [104, 105]\<rparr>)\<rparr>"
  let ?h = "\<lparr>file_name = ''#1'', file_contents = [104, 105 :: int]\<rparr>"
  note t1 = dump_file_moves_buffer [of ?c "VStr ''#1''" ?h "[]" "\<lambda>bs. ''digest''"]
  note t2 = dump_file_moves_buffer [of blank_context "VStr ''#2''" ?h "[]" "\<lambda>bs. ''digest''"]
  have p1: "open_files ?c (py_str (VStr ''#1'')) = Some ?h \<and> engine ?c = Some [] \<and>
    list_all (\<lambda>b. 0 \<le> b \<and> b < 256) (file_contents ?h)"
    by (simp add: open_file_def blank_context_def)
  have p2: "open_files blank_context (py_str (VStr ''#2'')) = None"
    by (simp add: blank_context_def)
  from t1 p1 have a: "dump_file (\<lambda>bs. ''digest'') ?c (VStr ''#1'') =
        (?c\<lparr>closed_files :=
              (closed_files ?c)(filter (\<lambda>ch. ch \<noteq> CHR ''#'') (file_name ?h) \<mapsto> file_contents ?h),
           open_files := (open_files ?c)(py_str (VStr ''#1'') := None),
           engine := Some ([] @
              [(''Dropped File Hash'', (\<lambda>bs. ''digest'') (file_contents ?h),
                ''File Name: '' @ filter (\<lambda>ch. ch \<noteq> CHR ''#'') (file_name ?h))])\<rparr>, None)"
    by blast
  from t2 p2 have b: "dump_file (\<lambda>bs. ''digest'') blank_context (VStr ''#2'') =
        (blank_context\<lparr>logged := logged blank_context @
           [''File '' @ py_str (VStr ''#2'') @ '' not open. Cannot save.'']\<rparr>, None)"
    by blast
  show ?thesis
    unfolding a b by (simp add: open_file_def blank_context_def)
qed

text \<open>
  Claim C9 as first stated holds for every open handle. On a context without an
  engine the buffer is moved and the handle removed, and then \<^verbatim>\<open>report_action\<close> raises
  \<^verbatim>\<open>AttributeError\<close>: no action is reported.
\<close>

theorem dump_file_without_engine_counterexample:
  "open_files
     (blank_context\<lparr>open_files := Map.empty(''#1'' \<mapsto> \<lparr>file_name = ''#1'', file_contents = [104, 105]\<rparr>)\<rparr>)
     ''#1'' = Some \<lparr>file_name = ''#1'', file_contents = [104, 105]\<rparr> \<and>
   dump_file (\<lambda>bs. ''digest'')
     (blank_context\<lparr>open_files := Map.empty(''#1'' \<mapsto> \<lparr>file_name = ''#1'', file_contents = [104, 105]\<rparr>)\<rparr>)
     (VStr ''#1'') =
     (blank_context\<lparr>closed_files := Map.empty(''1'' \<mapsto> [104, 105])\<rparr>, Some AttributeError) \<and>
   engine (fst (dump_file (\<lambda>bs. ''digest'')
     (blank_context\<lparr>open_files := Map.empty(''#1'' \<mapsto> \<lparr>file_name = ''#1'', file_contents = [104, 105]\<rparr>)\<rparr>)
     (VStr ''#1''))) = None"
  by (simp add: dump_file_def Let_def array_B_tostring_def report_action_def
      replace_single_empty blank_context_def)

section \<open>Properties of the assignment\<close>

lemma with_prefix_assign [simp]: "with_prefix (assign_var c n v) = with_prefix c"
  by (simp add: assign_var_def)

lemma with_prefix_save_type [simp]: "with_prefix (save_type c n t) = with_prefix c"
  by (simp add: save_type_def split: option.splits)

lemma locals_save_type [simp]: "locals (save_type c n t) = locals c"
  by (simp add: save_type_def split: option.splits)

lemma globals_save_type [simp]: "globals (save_type c n t) = globals c"
  by (simp add: save_type_def split: option.splits)

lemma assign_var_other:
  "k \<noteq> n \<Longrightarrow> locals (assign_var c n v) k = locals c k \<and> globals (assign_var c n v) k = globals c k"
  by (simp add: assign_var_def)

lemma assign_var_procedure:
  "globals c k = Some g \<Longrightarrow> is_procedure g \<Longrightarrow> globals (assign_var c n v) k = Some g"
  by (auto simp: assign_var_def)

lemma assign_var_lookup:
  "private_get L (assign_var c n v) (VStr k) =
     (if lower k = n then Inr v else private_get L c (VStr k))"
  by (auto simp: assign_var_def Let_def dom_def split: option.splits)

lemma private_get_cong:
  "locals c' (lower k) = locals c (lower k) \<Longrightarrow> globals c' (lower k) = globals c (lower k) \<Longrightarrow>
   private_get L c' (VStr k) = private_get L c (VStr k)"
  by (simp add: Let_def split: option.splits)

lemma set_var_step:
  assumes c1: "c1 = save_type (assign_var c (lower n) v) (lower n) t"
    and c2: "c2 = (if d \<and> with_prefix c \<noteq> []
                   then set_var L b c1 (VStr (with_prefix c @ lower n)) v t False else c1)"
  shows "set_var L b c (VStr n) v t d =
     (if endswith (lower n) ''.text'' then
        (case get L c2 (VStr (replace ''.text'' ''.datatype'' (lower n))) of
           Inl e \<Rightarrow> c2
         | Inr node \<Rightarrow>
             if strip (py_str node) = ''bin.base64'' then
               (case b (strip (py_str v)) of
                  None \<Rightarrow>
                    c2\<lparr>logged := logged c2 @
                         [''base64 conversion of '' @ [CHR 0x27] @ py_str v @ [CHR 0x27] @ '' failed. '']\<rparr>
                | Some conv_val \<Rightarrow>
                    set_var L b c2
                      (VStr (replace ''.text'' ''.nodetypedvalue'' (lower n))) (VBytes conv_val) None True)
             else c2)
      else c2)"
proof -
  have wp: "with_prefix c1 = with_prefix c" by (simp add: c1)
  have c2_eq: "c2 = (if d \<and> 0 < length (with_prefix c1)
          then set_var L b c1 (VStr (with_prefix c1 @ lower n)) v t False else c1)"
    by (simp only: c2 wp length_greater_0_conv)
  show ?thesis
    by (subst set_var.simps, unfold Let_def val.case c2_eq c1, rule refl)
qed

lemma set_var_not_str: "\<forall>n. name0 \<noteq> VStr n \<Longrightarrow> set_var L b c name0 v t d = c"
  by (subst set_var.simps) (cases name0; simp)

text \<open>A relation between the context before and after that every single store and
  every log record maintains is maintained by the whole call.\<close>

lemma set_var_induct_rel:
  assumes rrefl: "\<And>c. R c c"
    and rtrans: "\<And>a b c. R a b \<Longrightarrow> R b c \<Longrightarrow> R a c"
    and store: "\<And>c n v t. R c (save_type (assign_var c n v) n t)"
    and log: "\<And>c l. R c (c\<lparr>logged := l\<rparr>)"
  shows "R c (set_var L b c name0 v t d)"
proof (induction L b c name0 v t d rule: set_var.induct)
  case (1 L b c name0 v t d)
  show ?case
  proof (cases "\<exists>n. name0 = VStr n")
    case False
    then show ?thesis by (simp add: set_var_not_str rrefl)
  next
    case True
    then obtain n where n: "name0 = VStr n" by blast
    define c1 where "c1 = save_type (assign_var c (lower n) v) (lower n) t"
    define c2 where "c2 = (if d \<and> with_prefix c \<noteq> []
                then set_var L b c1 (VStr (with_prefix c @ lower n)) v t False else c1)"
    have r1: "R c c1" unfolding c1_def by (rule store)
    have r12: "R c1 c2"
    proof (cases "d \<and> with_prefix c \<noteq> []")
      case True
      then have "d \<and> 0 < length (with_prefix c1)" by (simp add: c1_def)
      from "1.IH"(1) [OF n refl c1_def this] True show ?thesis
        by (simp add: c2_def c1_def)
    next
      case False
      then show ?thesis unfolding c2_def by (auto simp: rrefl)
    qed
    from r1 r12 have r2: "R c c2" by (rule rtrans)
    have c2_eq: "c2 = (if d \<and> 0 < length (with_prefix c1)
          then set_var L b c1 (VStr (with_prefix c1 @ lower n)) v t False else c1)"
      by (simp add: c2_def c1_def)
    note u = set_var_step [OF c1_def c2_def, folded n]
    show ?thesis
    proof (cases "endswith (lower n) ''.text''")
      case False
      with u r2 show ?thesis by simp
    next
      case ends: True
      show ?thesis
      proof (cases "get L c2 (VStr (replace ''.text'' ''.datatype'' (lower n)))")
        case (Inl e)
        with u r2 ends show ?thesis by simp
      next
        case (Inr node)
        show ?thesis
        proof (cases "strip (py_str node) = ''bin.base64''")
          case False
          with u r2 ends Inr show ?thesis by simp
        next
          case b64: True
          show ?thesis
          proof (cases "b (strip (py_str v))")
            case None
            with u ends Inr b64 have "set_var L b c name0 v t d = c2\<lparr>logged := logged c2 @
                            [''base64 conversion of '' @ [CHR 0x27] @ py_str v @ [CHR 0x27] @ '' failed. '']\<rparr>"
              by simp
            with rtrans [OF r2 log] show ?thesis by simp
          next
            case (Some conv)
            from "1.IH"(2) [OF n refl c1_def c2_eq ends Inr b64 Some]
            have "R c2 (set_var L b c2 (VStr (replace ''.text'' ''.nodetypedvalue'' (lower n))) (VBytes conv) None True)" .
            with r2 have "R c (set_var L b c2 (VStr (replace ''.text'' ''.nodetypedvalue'' (lower n))) (VBytes conv) None True)"
              by (rule rtrans)
            with u ends Inr b64 Some show ?thesis by simp
          qed
        qed
      qed
    qed
  qed
qed

lemma set_var_with_prefix: "with_prefix (set_var L b c name0 v t d) = with_prefix c"
proof -
  have "(\<lambda>c c'. with_prefix c' = with_prefix c) c (set_var L b c name0 v t d)"
    by (rule set_var_induct_rel) simp_all
  then show ?thesis .
qed

lemma set_var_procedure_kept:
  assumes "globals c k = Some g" and "is_procedure g"
  shows "globals (set_var L b c name0 v t d) k = Some g"
proof -
  have "(\<lambda>c c'. globals c k = Some g \<longrightarrow> globals c' k = Some g) c (set_var L b c name0 v t d)"
    by (rule set_var_induct_rel) (auto simp: assign_var_procedure assms(2))
  with assms(1) show ?thesis by simp
qed

lemma endswith_append: "endswith x suf \<Longrightarrow> endswith (p @ x) suf"
  by (auto simp: endswith_iff)

lemma save_assign_other:
  "k \<noteq> n \<Longrightarrow> locals (save_type (assign_var c n v) n t) k = locals c k \<and>
            globals (save_type (assign_var c n v) n t) k = globals c k"
  by (simp add: assign_var_other)

lemma set_var_frame_aux:
  "name0 = VStr n \<Longrightarrow> k \<noteq> lower n \<Longrightarrow>
   (d \<and> with_prefix c \<noteq> [] \<longrightarrow> k \<noteq> lower (with_prefix c) @ lower n) \<Longrightarrow>
   (endswith k ''.nodetypedvalue'' \<longrightarrow> endswith (lower n) ''.nodetypedvalue'') \<Longrightarrow>
   locals (set_var L b c name0 v t d) k = locals c k \<and>
   globals (set_var L b c name0 v t d) k = globals c k"
proof (induction L b c name0 v t d arbitrary: n rule: set_var.induct)
  case (1 L b c name0 v t d)
  note n = \<open>name0 = VStr n\<close>
  define c1 where "c1 = save_type (assign_var c (lower n) v) (lower n) t"
  define c2 where "c2 = (if d \<and> with_prefix c \<noteq> []
                then set_var L b c1 (VStr (with_prefix c @ lower n)) v t False else c1)"
  have wp1: "with_prefix c1 = with_prefix c" by (simp add: c1_def)
  have wp2: "with_prefix c2 = with_prefix c" by (simp add: c2_def set_var_with_prefix wp1)
  have f1: "locals c1 k = locals c k \<and> globals c1 k = globals c k"
    unfolding c1_def using "1.prems"(2) by (rule save_assign_other)
  have c2_eq: "c2 = (if d \<and> 0 < length (with_prefix c1)
          then set_var L b c1 (VStr (with_prefix c1 @ lower n)) v t False else c1)"
    by (simp only: c2_def wp1 length_greater_0_conv)
  have f12: "locals c2 k = locals c1 k \<and> globals c2 k = globals c1 k"
  proof (cases "d \<and> with_prefix c \<noteq> []")
    case True
    then have g: "d \<and> 0 < length (with_prefix c1)" by (simp add: wp1)
    have a: "k \<noteq> lower (with_prefix c1 @ lower n)"
      using "1.prems"(3) True by (simp add: wp1 lower_append lower_idem)
    have b: "endswith k ''.nodetypedvalue'' \<longrightarrow>
               endswith (lower (with_prefix c1 @ lower n)) ''.nodetypedvalue''"
      using "1.prems"(4) by (auto intro: endswith_lower_prefix)
    from "1.IH"(1) [OF n refl c1_def g refl a _ b] True show ?thesis
      by (simp add: c2_def wp1)
  next
    case False
    then show ?thesis unfolding c2_def by auto
  qed
  from f1 f12 have f2: "locals c2 k = locals c k \<and> globals c2 k = globals c k" by simp
  note u = set_var_step [OF c1_def c2_def, folded n]
  show ?case
  proof (cases "endswith (lower n) ''.text''")
    case False
    with u f2 show ?thesis by simp
  next
    case ends: True
    show ?thesis
    proof (cases "get L c2 (VStr (replace ''.text'' ''.datatype'' (lower n)))")
      case (Inl e)
      with u f2 ends show ?thesis by simp
    next
      case (Inr node)
      show ?thesis
      proof (cases "strip (py_str node) = ''bin.base64''")
        case False
        with u f2 ends Inr show ?thesis by simp
      next
        case b64: True
        show ?thesis
        proof (cases "b (strip (py_str v))")
          case None
          with u f2 ends Inr b64 show ?thesis by simp
        next
          case (Some conv)
          let ?m = "replace ''.text'' ''.nodetypedvalue'' (lower n)"
          have m: "endswith (lower ?m) ''.nodetypedvalue''"
            using ends by (rule endswith_lower_replace)
          have nk: "\<not> endswith k ''.nodetypedvalue''"
            using "1.prems"(4) ends text_not_ntv by blast
          have a: "k \<noteq> lower ?m" using m nk by auto
          have a2: "True \<and> with_prefix c2 \<noteq> [] \<longrightarrow> k \<noteq> lower (with_prefix c2) @ lower ?m"
            using endswith_append [OF m] nk by auto
          have a3: "endswith k ''.nodetypedvalue'' \<longrightarrow> endswith (lower ?m) ''.nodetypedvalue''"
            using m by simp
          from "1.IH"(2) [OF n refl c1_def c2_eq ends Inr b64 Some refl a a2 a3] f2
          have "locals (set_var L b c2 (VStr ?m) (VBytes conv) None True) k = locals c k \<and>
                globals (set_var L b c2 (VStr ?m) (VBytes conv) None True) k = globals c k"
            by simp
          with u ends Inr b64 Some show ?thesis by simp
        qed
      qed
    qed
  qed
qed

lemma set_var_frame:
  assumes "k \<noteq> lower n"
    and "d \<and> with_prefix c \<noteq> [] \<longrightarrow> k \<noteq> lower (with_prefix c) @ lower n"
    and "endswith k ''.nodetypedvalue'' \<longrightarrow> endswith (lower n) ''.nodetypedvalue''"
  shows "locals (set_var L b c (VStr n) v t d) k = locals c k"
    and "globals (set_var L b c (VStr n) v t d) k = globals c k"
  using set_var_frame_aux [OF refl assms] by simp_all

lemma private_get_lower: "private_get L c (VStr (lower k)) = private_get L c (VStr k)"
  by (simp add: Let_def lower_idem)

lemma lower_text: "lower ''.text'' = ''.text''"
  by (simp add: lower_def lower_char_def)

lemma neq_append_self: "p \<noteq> [] \<Longrightarrow> x \<noteq> p @ x"
  by (metis append_self_conv2)

lemma save_assign_lookup:
  "private_get L (save_type (assign_var c (lower n) v) (lower n) t) (VStr n) = Inr v"
  by (auto simp: assign_var_def Let_def dom_def split: option.splits)

text \<open>After the store of a call, nothing the call does later touches the stored name.\<close>

lemma set_var_self:
  "locals (set_var L b c (VStr n) v t d) (lower n) =
     locals (save_type (assign_var c (lower n) v) (lower n) t) (lower n) \<and>
   globals (set_var L b c (VStr n) v t d) (lower n) =
     globals (save_type (assign_var c (lower n) v) (lower n) t) (lower n)"
proof -
  define c1 where "c1 = save_type (assign_var c (lower n) v) (lower n) t"
  define c2 where "c2 = (if d \<and> with_prefix c \<noteq> []
                then set_var L b c1 (VStr (with_prefix c @ lower n)) v t False else c1)"
  have wp1: "with_prefix c1 = with_prefix c" by (simp add: c1_def)
  have f12: "locals c2 (lower n) = locals c1 (lower n) \<and> globals c2 (lower n) = globals c1 (lower n)"
  proof (cases "d \<and> with_prefix c \<noteq> []")
    case True
    then have "lower (with_prefix c) \<noteq> []" by (simp add: lower_def)
    then have a: "lower n \<noteq> lower (with_prefix c @ lower n)"
      by (simp add: lower_append lower_idem neq_append_self)
    have b: "endswith (lower n) ''.nodetypedvalue'' \<longrightarrow>
             endswith (lower (with_prefix c @ lower n)) ''.nodetypedvalue''"
      by (auto intro: endswith_lower_prefix)
    from set_var_frame [OF a _ b, of False c1 L b v t] True show ?thesis
      by (simp add: c2_def)
  next
    case False
    then show ?thesis unfolding c2_def by auto
  qed
  note u = set_var_step [OF c1_def c2_def]
  show ?thesis
  proof (cases "endswith (lower n) ''.text''")
    case False
    with u f12 show ?thesis by (simp add: c1_def)
  next
    case ends: True
    show ?thesis
    proof (cases "get L c2 (VStr (replace ''.text'' ''.datatype'' (lower n)))")
      case (Inl e)
      with u f12 ends show ?thesis by (simp add: c1_def)
    next
      case (Inr node)
      show ?thesis
      proof (cases "strip (py_str node) = ''bin.base64''")
        case False
        with u f12 ends Inr show ?thesis by (simp add: c1_def)
      next
        case b64: True
        show ?thesis
        proof (cases "b (strip (py_str v))")
          case None
          with u f12 ends Inr b64 show ?thesis by (simp add: c1_def)
        next
          case (Some conv)
          let ?m = "replace ''.text'' ''.nodetypedvalue'' (lower n)"
          have m: "endswith (lower ?m) ''.nodetypedvalue''"
            using ends by (rule endswith_lower_replace)
          have nk: "\<not> endswith (lower n) ''.nodetypedvalue''"
            using ends by (rule text_not_ntv)
          have a: "lower n \<noteq> lower ?m" using m nk by auto
          have a2: "True \<and> with_prefix c2 \<noteq> [] \<longrightarrow> lower n \<noteq> lower (with_prefix c2) @ lower ?m"
            using endswith_append [OF m, of "lower (with_prefix c2)"] nk by auto
          have a3: "endswith (lower n) ''.nodetypedvalue'' \<longrightarrow> endswith (lower ?m) ''.nodetypedvalue''"
            using m by simp
          from set_var_frame [OF a a2 a3, of L b "VBytes conv" None] f12
          have "locals (set_var L b c2 (VStr ?m) (VBytes conv) None True) (lower n) = locals c1 (lower n) \<and>
                globals (set_var L b c2 (VStr ?m) (VBytes conv) None True) (lower n) = globals c1 (lower n)"
            by simp
          with u ends Inr b64 Some show ?thesis by (simp add: c1_def)
        qed
      qed
    qed
  qed
qed

lemma set_var_then_private_get:
  "private_get L (set_var L b c (VStr n) v t d) (VStr n) = Inr v"
proof -
  have "private_get L (set_var L b c (VStr n) v t d) (VStr n) =
        private_get L (save_type (assign_var c (lower n) v) (lower n) t) (VStr n)"
    using set_var_self [of L b c n v t d] by (intro private_get_cong) simp_all
  then show ?thesis by (simp only: save_assign_lookup)
qed

lemma set_var_last_step:
  assumes c1: "c1 = save_type (assign_var c (lower n) v) (lower n) t"
    and c2: "c2 = (if d \<and> with_prefix c \<noteq> []
                   then set_var L b c1 (VStr (with_prefix c @ lower n)) v t False else c1)"
    and k: "endswith (lower n) ''.text'' \<longrightarrow> \<not> endswith k ''.nodetypedvalue''"
  shows "locals (set_var L b c (VStr n) v t d) k = locals c2 k \<and>
         globals (set_var L b c (VStr n) v t d) k = globals c2 k"
proof -
  note u = set_var_step [OF c1 c2]
  show ?thesis
  proof (cases "endswith (lower n) ''.text''")
    case False
    with u show ?thesis by simp
  next
    case ends: True
    with k have nk: "\<not> endswith k ''.nodetypedvalue''" by simp
    show ?thesis
    proof (cases "get L c2 (VStr (replace ''.text'' ''.datatype'' (lower n)))")
      case (Inl e)
      with u ends show ?thesis by simp
    next
      case (Inr node)
      show ?thesis
      proof (cases "strip (py_str node) = ''bin.base64''")
        case False
        with u ends Inr show ?thesis by simp
      next
        case b64: True
        show ?thesis
        proof (cases "b (strip (py_str v))")
          case None
          with u ends Inr b64 show ?thesis by simp
        next
          case (Some conv)
          let ?m = "replace ''.text'' ''.nodetypedvalue'' (lower n)"
          have m: "endswith (lower ?m) ''.nodetypedvalue''"
            using ends by (rule endswith_lower_replace)
          have a: "k \<noteq> lower ?m" using m nk by auto
          have a2: "True \<and> with_prefix c2 \<noteq> [] \<longrightarrow> k \<noteq> lower (with_prefix c2) @ lower ?m"
            using endswith_append [OF m, of "lower (with_prefix c2)"] nk by auto
          have a3: "endswith k ''.nodetypedvalue'' \<longrightarrow> endswith (lower ?m) ''.nodetypedvalue''"
            using m by simp
          from set_var_frame [OF a a2 a3, of L b "VBytes conv" None]
          have "locals (set_var L b c2 (VStr ?m) (VBytes conv) None True) k = locals c2 k \<and>
                globals (set_var L b c2 (VStr ?m) (VBytes conv) None True) k = globals c2 k"
            by simp
          with u ends Inr b64 Some show ?thesis by simp
        qed
      qed
    qed
  qed
qed

lemma endswith_text_lower_append:
  "endswith (lower n) ''.text'' \<Longrightarrow> endswith (lower (p @ n)) ''.text''"
  by (simp add: lower_append endswith_append)

lemma set_var_prefixed_lookup:
  assumes p: "with_prefix c \<noteq> []"
  shows "private_get L (set_var L b c (VStr n) v t True) (VStr (with_prefix c @ n)) = Inr v"
proof -
  define c1 where "c1 = save_type (assign_var c (lower n) v) (lower n) t"
  define c2 where "c2 = (if True \<and> with_prefix c \<noteq> []
                then set_var L b c1 (VStr (with_prefix c @ lower n)) v t False else c1)"
  let ?k = "lower (with_prefix c @ n)"
  have k: "endswith (lower n) ''.text'' \<longrightarrow> \<not> endswith ?k ''.nodetypedvalue''"
    using endswith_text_lower_append text_not_ntv by blast
  note ls = set_var_last_step [OF c1_def c2_def k]
  have "private_get L (set_var L b c (VStr n) v t True) (VStr (with_prefix c @ n)) =
        private_get L c2 (VStr (with_prefix c @ n))"
    using ls by (intro private_get_cong) simp_all
  also have "\<dots> = private_get L c2 (VStr (lower (with_prefix c @ lower n)))"
    by (simp add: lower_append lower_idem Let_def)
  also have "\<dots> = private_get L c2 (VStr (with_prefix c @ lower n))"
    by (rule private_get_lower)
  also have "\<dots> = Inr v"
    using p by (simp add: c2_def set_var_then_private_get del: private_get.simps)
  finally show ?thesis .
qed

text \<open>
  Claim C2. When \<open>globals\<close> maps the lowercased name to a procedure (a value with
  a \<^verbatim>\<open>statements\<close> attribute), \<^verbatim>\<open>set\<close> with that name leaves the global entry as it is
  and stores the value in \<open>locals\<close>. Moreover no call of \<^verbatim>\<open>set\<close>, whatever its name,
  changes a global entry that holds a procedure.
\<close>

theorem set_var_keeps_procedures:
  "(globals c (lower n) = Some g \<and> is_procedure g \<longrightarrow>
      globals (set_var L b c (VStr n) v t d) (lower n) = Some g \<and>
      locals (set_var L b c (VStr n) v t d) (lower n) = Some v) \<and>
   (\<forall>k p. globals c k = Some p \<and> is_procedure p \<longrightarrow>
      globals (set_var L b c name0 v t d) k = Some p)"
proof (intro conjI impI allI)
  assume h: "globals c (lower n) = Some g \<and> is_procedure g"
  then show "globals (set_var L b c (VStr n) v t d) (lower n) = Some g"
    by (simp add: set_var_procedure_kept)
  from h have "locals (assign_var c (lower n) v) (lower n) = Some v"
    by (simp add: assign_var_def)
  then show "locals (set_var L b c (VStr n) v t d) (lower n) = Some v"
    using set_var_self [of L b c n v t d] by simp
next
  fix k p
  assume "globals c k = Some p \<and> is_procedure p"
  then show "globals (set_var L b c name0 v t d) k = Some p"
    by (simp add: set_var_procedure_kept)
qed

theorem set_var_keeps_procedures_witness:
  "globals (set_var Map.empty (\<lambda>s. None)
              (blank_context\<lparr>globals := Map.empty(''f'' \<mapsto> Node ''Function f'' True)\<rparr>)
              (VStr ''F'') (VInt 5) None True) ''f'' = Some (Node ''Function f'' True) \<and>
   locals (set_var Map.empty (\<lambda>s. None)
              (blank_context\<lparr>globals := Map.empty(''f'' \<mapsto> Node ''Function f'' True)\<rparr>)
              (VStr ''F'') (VInt 5) None True) ''f'' = Some (VInt 5)"
proof -
  let ?c = "blank_context\<lparr>globals := Map.empty(''f'' \<mapsto> Node ''Function f'' True)\<rparr>"
  have l: "lower ''F'' = ''f''" by (simp add: lower_def lower_char_def)
  have h: "globals ?c (lower ''F'') = Some (Node ''Function f'' True) \<and>
           is_procedure (Node ''Function f'' True)"
    by (simp add: l)
  from set_var_keeps_procedures [of ?c "''F''" "Node ''Function f'' True" Map.empty "\<lambda>s. None"
      "VInt 5" None True] h
  show ?thesis by (simp add: l)
qed














lemma set_var_then_get:
  "get L (set_var L b c (VStr n) v t True) (VStr n) = Inr v"
proof (cases "with_prefix c = []")
  case True
  have "private_get L (set_var L b c (VStr n) v t True) (VStr ([] @ n)) = Inr v"
    by (simp only: append_Nil set_var_then_private_get)
  then show ?thesis
    unfolding get_def Let_def py_str.simps set_var_with_prefix True by simp
next
  case False
  from set_var_prefixed_lookup [OF False, of L b n v t]
  show ?thesis
    unfolding get_def Let_def py_str.simps set_var_with_prefix by simp
qed













text \<open>Nothing is ever stored under the doubly prefixed name.\<close>

lemma set_var_double_prefix_untouched:
  assumes p: "with_prefix c \<noteq> []"
  shows "locals (set_var L b c (VStr n) v t True) (lower (with_prefix c @ with_prefix c @ n)) =
           locals c (lower (with_prefix c @ with_prefix c @ n)) \<and>
         globals (set_var L b c (VStr n) v t True) (lower (with_prefix c @ with_prefix c @ n)) =
           globals c (lower (with_prefix c @ with_prefix c @ n))"
proof -
  let ?P = "lower (with_prefix c)"
  let ?K = "lower (with_prefix c @ with_prefix c @ n)"
  let ?n' = "with_prefix c @ lower n"
  define c1 where "c1 = save_type (assign_var c (lower n) v) (lower n) t"
  define c2 where "c2 = (if True \<and> with_prefix c \<noteq> []
                then set_var L b c1 (VStr ?n') v t False else c1)"
  define c1' where "c1' = save_type (assign_var c1 (lower ?n') v) (lower ?n') t"
  define c2' where "c2' = (if False \<and> with_prefix c1 \<noteq> []
                then set_var L b c1' (VStr (with_prefix c1 @ lower ?n')) v t False else c1')"
  have P: "?P \<noteq> []" using p by (simp add: lower_def)
  have K: "?K = ?P @ ?P @ lower n" by (simp add: lower_append)
  have n': "lower ?n' = ?P @ lower n" by (simp add: lower_append lower_idem)
  have k1: "?K \<noteq> lower n"
    unfolding K using P by (metis append_assoc append_self_conv2 append_is_Nil_conv)
  have k2: "?K \<noteq> lower ?n'"
    unfolding K n' using P by (metis append_self_conv2)
  have e1: "endswith (lower n) ''.text'' \<longrightarrow> \<not> endswith ?K ''.nodetypedvalue''"
  proof
    assume "endswith (lower n) ''.text''"
    then have "endswith ?K ''.text''"
      unfolding K by (metis append_assoc endswith_append)
    then show "\<not> endswith ?K ''.nodetypedvalue''" by (rule text_not_ntv)
  qed
  have e2: "endswith (lower ?n') ''.text'' \<longrightarrow> \<not> endswith ?K ''.nodetypedvalue''"
  proof
    assume "endswith (lower ?n') ''.text''"
    then have "endswith ?K ''.text''"
      unfolding K n' by (rule endswith_append)
    then show "\<not> endswith ?K ''.nodetypedvalue''" by (rule text_not_ntv)
  qed
  from set_var_last_step [OF c1_def c2_def e1]
  have s1: "locals (set_var L b c (VStr n) v t True) ?K = locals c2 ?K \<and>
            globals (set_var L b c (VStr n) v t True) ?K = globals c2 ?K" .
  from set_var_last_step [OF c1'_def c2'_def e2]
  have s2: "locals (set_var L b c1 (VStr ?n') v t False) ?K = locals c2' ?K \<and>
            globals (set_var L b c1 (VStr ?n') v t False) ?K = globals c2' ?K" .
  have s3: "locals c1' ?K = locals c1 ?K \<and> globals c1' ?K = globals c1 ?K"
    unfolding c1'_def using k2 by (rule save_assign_other)
  have s4: "locals c1 ?K = locals c ?K \<and> globals c1 ?K = globals c ?K"
    unfolding c1_def using k1 by (rule save_assign_other)
  have c2: "c2 = set_var L b c1 (VStr ?n') v t False" using p by (simp add: c2_def)
  have c2': "c2' = c1'" by (simp add: c2'_def)
  from s1 s2 s3 s4 show ?thesis by (simp add: c2 c2')
qed

lemma set_var_double_prefix_lookup:
  assumes p: "with_prefix c \<noteq> []"
  shows "private_get L (set_var L b c (VStr n) v t True) (VStr (with_prefix c @ with_prefix c @ n)) =
         private_get L c (VStr (with_prefix c @ with_prefix c @ n))"
  using set_var_double_prefix_untouched [OF p, of L b n v t]
  by (intro private_get_cong) simp_all

text \<open>
  Claim C6, as amended. With a \<^verbatim>\<open>With\<close> prefix active, \<^verbatim>\<open>set(name, value)\<close> stores the
  value under \<open>name\<close> and under \<open>with_prefix + name\<close>, and \<^verbatim>\<open>get(name)\<close> returns it; the
  repeated call runs with the prefix flag off, and the entry of the doubly prefixed
  name \<open>with_prefix + with_prefix + name\<close> is left as it was. \<^verbatim>\<open>get(with_prefix + name)\<close>
  returns the value when the doubly prefixed name is not bound: \<^verbatim>\<open>get\<close> tries the
  prefixed form of its argument first. So with the prefix \<^verbatim>\<open>foo.\<close>, after
  \<^verbatim>\<open>set("bar", 1)\<close>, \<^verbatim>\<open>get("bar")\<close> returns \<open>1\<close>, and \<^verbatim>\<open>get("foo.bar")\<close> returns \<open>1\<close> in every
  context in which \<^verbatim>\<open>foo.foo.bar\<close> was not bound.
\<close>

theorem set_var_stores_under_prefix:
  "(with_prefix c \<noteq> [] \<longrightarrow>
      private_get L (set_var L b c (VStr n) v t True) (VStr (with_prefix c @ n)) = Inr v \<and>
      private_get L (set_var L b c (VStr n) v t True) (VStr n) = Inr v \<and>
      get L (set_var L b c (VStr n) v t True) (VStr n) = Inr v \<and>
      private_get L (set_var L b c (VStr n) v t True) (VStr (with_prefix c @ with_prefix c @ n)) =
        private_get L c (VStr (with_prefix c @ with_prefix c @ n)) \<and>
      (private_get L c (VStr (with_prefix c @ with_prefix c @ n)) = Inl KeyError \<longrightarrow>
         get L (set_var L b c (VStr n) v t True) (VStr (with_prefix c @ n)) = Inr v)) \<and>
   (with_prefix c = ''foo.'' \<and> private_get L c (VStr ''foo.foo.bar'') = Inl KeyError \<longrightarrow>
      get L (set_var L b c (VStr ''bar'') (VInt 1) None True) (VStr ''bar'') = Inr (VInt 1) \<and>
      get L (set_var L b c (VStr ''bar'') (VInt 1) None True) (VStr ''foo.bar'') = Inr (VInt 1))"
proof -
  have gen: "private_get L (set_var L b c (VStr n) v t True) (VStr (with_prefix c @ n)) = Inr v \<and>
      private_get L (set_var L b c (VStr n) v t True) (VStr n) = Inr v \<and>
      get L (set_var L b c (VStr n) v t True) (VStr n) = Inr v \<and>
      private_get L (set_var L b c (VStr n) v t True) (VStr (with_prefix c @ with_prefix c @ n)) =
        private_get L c (VStr (with_prefix c @ with_prefix c @ n)) \<and>
      (private_get L c (VStr (with_prefix c @ with_prefix c @ n)) = Inl KeyError \<longrightarrow>
         get L (set_var L b c (VStr n) v t True) (VStr (with_prefix c @ n)) = Inr v)"
    if p: "with_prefix c \<noteq> []" for c :: Context and n v t
  proof -
    let ?c' = "set_var L b c (VStr n) v t True"
    have a: "private_get L ?c' (VStr (with_prefix c @ n)) = Inr v"
      using p by (rule set_var_prefixed_lookup)
    have s: "private_get L ?c' (VStr n) = Inr v"
      by (rule set_var_then_private_get)
    have g: "get L ?c' (VStr n) = Inr v"
      by (rule set_var_then_get)
    have d: "private_get L ?c' (VStr (with_prefix c @ with_prefix c @ n)) =
        private_get L c (VStr (with_prefix c @ with_prefix c @ n))"
      using p by (rule set_var_double_prefix_lookup)
    have e: "get L ?c' (VStr (with_prefix c @ n)) = Inr v"
      if "private_get L c (VStr (with_prefix c @ with_prefix c @ n)) = Inl KeyError"
      unfolding get_def Let_def py_str.simps set_var_with_prefix d that
      by (simp add: a del: private_get.simps)
    from a s g d e show ?thesis by blast
  qed
  have ex: "get L (set_var L b c (VStr ''bar'') (VInt 1) None True) (VStr ''bar'') = Inr (VInt 1) \<and>
      get L (set_var L b c (VStr ''bar'') (VInt 1) None True) (VStr ''foo.bar'') = Inr (VInt 1)"
    if h: "with_prefix c = ''foo.'' \<and> private_get L c (VStr ''foo.foo.bar'') = Inl KeyError"
  proof -
    from h have p: "with_prefix c \<noteq> []" by auto
    from h have k: "private_get L c (VStr (with_prefix c @ with_prefix c @ ''bar'')) = Inl KeyError"
      by simp
    from gen [OF p, of "''bar''" "VInt 1" None] k h show ?thesis by simp
  qed
  from gen ex show ?thesis by blast
qed

theorem set_var_stores_under_prefix_witness:
  "get Map.empty (set_var Map.empty (\<lambda>s. None) (blank_context\<lparr>with_prefix := ''foo.''\<rparr>)
         (VStr ''bar'') (VInt 1) None True) (VStr ''bar'') = Inr (VInt 1) \<and>
   get Map.empty (set_var Map.empty (\<lambda>s. None) (blank_context\<lparr>with_prefix := ''foo.''\<rparr>)
         (VStr ''bar'') (VInt 1) None True) (VStr ''foo.bar'') = Inr (VInt 1)"
proof -
  let ?c = "blank_context\<lparr>with_prefix := ''foo.''\<rparr>"
  have h: "with_prefix ?c = ''foo.'' \<and> private_get Map.empty ?c (VStr ''foo.foo.bar'') = Inl KeyError"
    by (simp add: blank_context_def)
  from set_var_stores_under_prefix [of ?c Map.empty "\<lambda>s. None" "''bar''" "VInt 1" None] h
  show ?thesis by blast
qed

text \<open>
  The claim as first stated has \<^verbatim>\<open>get("foo.bar")\<close> return \<open>1\<close> in every context with the
  prefix \<^verbatim>\<open>foo.\<close>. In a context where \<^verbatim>\<open>foo.foo.bar\<close> is bound to \<open>2\<close> it returns \<open>2\<close>.
\<close>

theorem set_var_prefix_shadowed_counterexample:
  "get Map.empty
     (set_var Map.empty (\<lambda>s. None)
        (blank_context\<lparr>locals := Map.empty(''foo.foo.bar'' \<mapsto> VInt 2), with_prefix := ''foo.''\<rparr>)
        (VStr ''bar'') (VInt 1) None True)
     (VStr ''foo.bar'') = Inr (VInt 2)"
proof -
  let ?c = "blank_context\<lparr>locals := Map.empty(''foo.foo.bar'' \<mapsto> VInt 2), with_prefix := ''foo.''\<rparr>"
  let ?c' = "set_var Map.empty (\<lambda>s. None) ?c (VStr ''bar'') (VInt 1) None True"
  have p: "with_prefix ?c \<noteq> []" by simp
  have l: "lower ''foo.foo.bar'' = ''foo.foo.bar''" by (simp add: lower_def lower_char_def)
  have "private_get Map.empty ?c' (VStr (with_prefix ?c @ with_prefix ?c @ ''bar'')) =
        private_get Map.empty ?c (VStr (with_prefix ?c @ with_prefix ?c @ ''bar''))"
    using p by (rule set_var_double_prefix_lookup)
  then have d: "private_get Map.empty ?c' (VStr ''foo.foo.bar'') = Inr (VInt 2)"
    by (simp add: l Let_def)
  have wp: "with_prefix ?c' = ''foo.''" by (simp add: set_var_with_prefix)
  have "''foo.'' @ py_str (VStr ''foo.bar'') = ''foo.foo.bar''" by simp
  then show ?thesis
    unfolding get_def Let_def wp by (simp only: d sum.case)
qed

section \<open>Properties of the constructor\<close>

lemma seed_Cons: "seed g ((k, v) # kvs) = seed (g(lower k \<mapsto> v)) kvs"
  by (simp add: seed_def)

lemma seed_last:
  "seed g kvs k = (case last_assigned kvs k of Some r \<Rightarrow> Some r | None \<Rightarrow> g k)"
proof (induction kvs arbitrary: g)
  case Nil
  show ?case by (simp add: seed_def)
next
  case (Cons a kvs)
  obtain k' v where a: "a = (k', v)" by (cases a)
  have "seed g (a # kvs) k = seed (g(lower k' \<mapsto> v)) kvs k"
    by (simp only: a seed_Cons)
  also have "\<dots> = (case last_assigned kvs k of Some r \<Rightarrow> Some r
                     | None \<Rightarrow> (g(lower k' \<mapsto> v)) k)"
    by (rule Cons.IH)
  also have "\<dots> = (case last_assigned (a # kvs) k of Some r \<Rightarrow> Some r | None \<Rightarrow> g k)"
    by (auto simp: a split: option.splits)
  finally show ?case .
qed

lemma last_assigned_append:
  "last_assigned (xs @ ys) k =
     (case last_assigned ys k of Some r \<Rightarrow> Some r | None \<Rightarrow> last_assigned xs k)"
  by (induction xs) (auto split: option.splits)

lemma last_assigned_None: "last_assigned kvs k = None \<longleftrightarrow> k \<notin> lower ` fst ` set kvs"
  by (induction kvs) (auto split: option.splits)

lemma seed_overwrites:
  assumes "k \<in> lower ` fst ` set kvs"
  shows "seed g kvs k = last_assigned kvs k" and "seed g kvs k \<noteq> None"
proof -
  from assms have "last_assigned kvs k \<noteq> None" by (simp add: last_assigned_None)
  then show "seed g kvs k = last_assigned kvs k" and "seed g kvs k \<noteq> None"
    by (auto simp: seed_last)
qed

lemma lower_char_eval:
  "lower_char CHR ''A'' = CHR ''a''"
  "lower_char CHR ''B'' = CHR ''b''"
  "lower_char CHR ''C'' = CHR ''c''"
  "lower_char CHR ''D'' = CHR ''d''"
  "lower_char CHR ''E'' = CHR ''e''"
  "lower_char CHR ''F'' = CHR ''f''"
  "lower_char CHR ''G'' = CHR ''g''"
  "lower_char CHR ''H'' = CHR ''h''"
  "lower_char CHR ''I'' = CHR ''i''"
  "lower_char CHR ''J'' = CHR ''j''"
  "lower_char CHR ''K'' = CHR ''k''"
  "lower_char CHR ''L'' = CHR ''l''"
  "lower_char CHR ''M'' = CHR ''m''"
  "lower_char CHR ''N'' = CHR ''n''"
  "lower_char CHR ''O'' = CHR ''o''"
  "lower_char CHR ''P'' = CHR ''p''"
  "lower_char CHR ''Q'' = CHR ''q''"
  "lower_char CHR ''R'' = CHR ''r''"
  "lower_char CHR ''S'' = CHR ''s''"
  "lower_char CHR ''T'' = CHR ''t''"
  "lower_char CHR ''U'' = CHR ''u''"
  "lower_char CHR ''V'' = CHR ''v''"
  "lower_char CHR ''W'' = CHR ''w''"
  "lower_char CHR ''X'' = CHR ''x''"
  "lower_char CHR ''Y'' = CHR ''y''"
  "lower_char CHR ''Z'' = CHR ''z''"
  "lower_char CHR ''a'' = CHR ''a''"
  "lower_char CHR ''b'' = CHR ''b''"
  "lower_char CHR ''c'' = CHR ''c''"
  "lower_char CHR ''d'' = CHR ''d''"
  "lower_char CHR ''e'' = CHR ''e''"
  "lower_char CHR ''f'' = CHR ''f''"
  "lower_char CHR ''g'' = CHR ''g''"
  "lower_char CHR ''h'' = CHR ''h''"
  "lower_char CHR ''i'' = CHR ''i''"
  "lower_char CHR ''j'' = CHR ''j''"
  "lower_char CHR ''k'' = CHR ''k''"
  "lower_char CHR ''l'' = CHR ''l''"
  "lower_char CHR ''m'' = CHR ''m''"
  "lower_char CHR ''n'' = CHR ''n''"
  "lower_char CHR ''o'' = CHR ''o''"
  "lower_char CHR ''p'' = CHR ''p''"
  "lower_char CHR ''q'' = CHR ''q''"
  "lower_char CHR ''r'' = CHR ''r''"
  "lower_char CHR ''s'' = CHR ''s''"
  "lower_char CHR ''t'' = CHR ''t''"
  "lower_char CHR ''u'' = CHR ''u''"
  "lower_char CHR ''v'' = CHR ''v''"
  "lower_char CHR ''w'' = CHR ''w''"
  "lower_char CHR ''x'' = CHR ''x''"
  "lower_char CHR ''y'' = CHR ''y''"
  "lower_char CHR ''z'' = CHR ''z''"
  "lower_char CHR ''0'' = CHR ''0''"
  "lower_char CHR ''1'' = CHR ''1''"
  "lower_char CHR ''2'' = CHR ''2''"
  "lower_char CHR ''3'' = CHR ''3''"
  "lower_char CHR ''4'' = CHR ''4''"
  "lower_char CHR ''5'' = CHR ''5''"
  "lower_char CHR ''6'' = CHR ''6''"
  "lower_char CHR ''7'' = CHR ''7''"
  "lower_char CHR ''8'' = CHR ''8''"
  "lower_char CHR ''9'' = CHR ''9''"
  "lower_char CHR ''_'' = CHR ''_''"
  "lower_char CHR ''.'' = CHR ''.''"
  by (simp_all add: lower_char_def)

lemma last_now:
  "last_assigned (constants_160_263 now) ''now'' = Some (now)"
  "last_assigned (constants_264_363) ''now'' = None"
  "last_assigned (constants_364_463) ''now'' = None"
  "last_assigned (constants_464_568) ''now'' = None"
  "last_assigned (constants_569_673) ''now'' = None"
  "last_assigned (constants_674_791) ''now'' = None"
  "last_assigned (constants_792_893) ''now'' = None"
  "last_assigned (constants_894_993) ''now'' = None"
  "last_assigned (constants_994_1099) ''now'' = None"
  "last_assigned (constants_1100_1199) ''now'' = None"
  "last_assigned (constants_1200_1299) ''now'' = None"
  "last_assigned (constants_1300_1401) ''now'' = None"
  "last_assigned (constants_1402_1442) ''now'' = None"
  by (simp_all add: lower_def lower_char_eval
      constants_160_263_def
      constants_264_363_def
      constants_364_463_def
      constants_464_568_def
      constants_569_673_def
      constants_674_791_def
      constants_792_893_def
      constants_894_993_def
      constants_994_1099_def
      constants_1100_1199_def
      constants_1200_1299_def
      constants_1300_1401_def
      constants_1402_1442_def)

lemma last_application_username:
  "last_assigned (constants_160_263 now) ''application.username'' = Some (VStr ''--'')"
  "last_assigned (constants_264_363) ''application.username'' = None"
  "last_assigned (constants_364_463) ''application.username'' = None"
  "last_assigned (constants_464_568) ''application.username'' = None"
  "last_assigned (constants_569_673) ''application.username'' = None"
  "last_assigned (constants_674_791) ''application.username'' = None"
  "last_assigned (constants_792_893) ''application.username'' = None"
  "last_assigned (constants_894_993) ''application.username'' = None"
  "last_assigned (constants_994_1099) ''application.username'' = None"
  "last_assigned (constants_1100_1199) ''application.username'' = None"
  "last_assigned (constants_1200_1299) ''application.username'' = None"
  "last_assigned (constants_1300_1401) ''application.username'' = None"
  "last_assigned (constants_1402_1442) ''application.username'' = None"
  by (simp_all add: lower_def lower_char_eval
      constants_160_263_def
      constants_264_363_def
      constants_364_463_def
      constants_464_568_def
      constants_569_673_def
      constants_674_791_def
      constants_792_893_def
      constants_894_993_def
      constants_994_1099_def
      constants_1100_1199_def
      constants_1200_1299_def
      constants_1300_1401_def
      constants_1402_1442_def)

lemma last_vbkeya:
  "last_assigned (constants_464_568) ''vbkeya'' = Some (VInt 65)"
  "last_assigned (constants_569_673) ''vbkeya'' = None"
  "last_assigned (constants_674_791) ''vbkeya'' = None"
  "last_assigned (constants_792_893) ''vbkeya'' = None"
  "last_assigned (constants_894_993) ''vbkeya'' = None"
  "last_assigned (constants_994_1099) ''vbkeya'' = None"
  "last_assigned (constants_1100_1199) ''vbkeya'' = None"
  "last_assigned (constants_1200_1299) ''vbkeya'' = None"
  "last_assigned (constants_1300_1401) ''vbkeya'' = None"
  "last_assigned (constants_1402_1442) ''vbkeya'' = None"
  by (simp_all add: lower_def lower_char_eval
      constants_464_568_def
      constants_569_673_def
      constants_674_791_def
      constants_792_893_def
      constants_894_993_def
      constants_994_1099_def
      constants_1100_1199_def
      constants_1200_1299_def
      constants_1300_1401_def
      constants_1402_1442_def)

lemma last_assigned_examples:
  "last_assigned (seeded_constants now) ''now'' = Some now"
  "last_assigned (seeded_constants now) ''application.username'' = Some (VStr ''--'')"
  "last_assigned (seeded_constants now) ''vbkeya'' = Some (VInt 65)"
  unfolding seeded_constants_def last_assigned_append
  by (simp_all only: last_now last_application_username last_vbkeya option.case)

lemma seeded_examples:
  "seed g (seeded_constants now) ''now'' = Some now"
  "seed g (seeded_constants now) ''application.username'' = Some (VStr ''--'')"
  "seed g (seeded_constants now) ''vbkeya'' = Some (VInt 65)"
  by (simp_all only: seed_last last_assigned_examples option.case)

lemma Context_init_child:
  "Context_init h None locals_arg (Some p) engine_arg doc_vars_arg excel_arg now = (h', child) \<Longrightarrow>
   ref_globals child = ref_globals p \<and>
   val_dicts h' (ref_globals p) = Some (seed (val_dict_at h (ref_globals p)) (seeded_constants now))"
  by (cases doc_vars_arg)
     (auto simp: Context_init_def Let_def new_name_dict_def new_file_dict_def new_data_dict_def
      val_dict_at_def case_prod_beta)

text \<open>
  Claim C10, as amended. A context constructed from a parent \<open>p\<close> and no explicit \<open>_globals\<close>
  has the parent's own \<open>globals\<close> dictionary, and the construction writes every seeded
  constant into that shared dictionary: afterwards the dictionary, as the parent sees
  it too, holds for every seeded name the value the constructor assigns, whatever
  was stored under that name before; so \<^verbatim>\<open>now\<close>, \<^verbatim>\<open>application.username\<close> and \<^verbatim>\<open>vbkeya\<close>
  are reset to the clock reading, \<^verbatim>\<open>"--"\<close> and \<open>65\<close>.
\<close>

theorem Context_init_rewrites_shared_globals:
  "ref_globals (snd (Context_init h None locals_arg (Some p) engine_arg doc_vars_arg excel_arg now))
     = ref_globals p \<and>
   globals (view (fst (Context_init h None locals_arg (Some p) engine_arg doc_vars_arg excel_arg now)) p)
     = seed (globals (view h p)) (seeded_constants now) \<and>
   globals (view (fst (Context_init h None locals_arg (Some p) engine_arg doc_vars_arg excel_arg now))
              (snd (Context_init h None locals_arg (Some p) engine_arg doc_vars_arg excel_arg now)))
     = seed (globals (view h p)) (seeded_constants now) \<and>
   (\<forall>k \<in> lower ` fst ` set (seeded_constants now).
      seed (globals (view h p)) (seeded_constants now) k = seed Map.empty (seeded_constants now) k \<and>
      seed (globals (view h p)) (seeded_constants now) k \<noteq> None) \<and>
   seed (globals (view h p)) (seeded_constants now) ''now'' = Some now \<and>
   seed (globals (view h p)) (seeded_constants now) ''application.username'' = Some (VStr ''--'') \<and>
   seed (globals (view h p)) (seeded_constants now) ''vbkeya'' = Some (VInt 65)"
proof -
  obtain h' child
    where ci: "Context_init h None locals_arg (Some p) engine_arg doc_vars_arg excel_arg now = (h', child)"
    by (cases "Context_init h None locals_arg (Some p) engine_arg doc_vars_arg excel_arg now")
  note cc = Context_init_child [OF ci]
  have g: "globals (view h p) = val_dict_at h (ref_globals p)" by (simp add: view_def)
  have a: "globals (view h' p) = seed (globals (view h p)) (seeded_constants now)"
    using cc by (simp add: view_def val_dict_at_def)
  have b: "globals (view h' child) = seed (globals (view h p)) (seeded_constants now)"
    using cc by (simp add: view_def val_dict_at_def)
  have c: "\<forall>k \<in> lower ` fst ` set (seeded_constants now).
      seed (globals (view h p)) (seeded_constants now) k = seed Map.empty (seeded_constants now) k \<and>
      seed (globals (view h p)) (seeded_constants now) k \<noteq> None"
  proof
    fix k
    assume k: "k \<in> lower ` fst ` set (seeded_constants now)"
    from seed_overwrites [OF k, of "globals (view h p)"] seed_overwrites [OF k, of Map.empty]
    show "seed (globals (view h p)) (seeded_constants now) k = seed Map.empty (seeded_constants now) k \<and>
      seed (globals (view h p)) (seeded_constants now) k \<noteq> None"
      by simp
  qed
  from cc have r: "ref_globals child = ref_globals p" by simp
  note e = seeded_examples [of "globals (view h p)" now]
  show ?thesis
    unfolding ci fst_conv snd_conv
    by (intro conjI r a b c e)
qed

theorem Context_init_rewrites_shared_globals_witness:
  "globals (view (fst (Context_init
       \<lparr>val_dicts = Map.empty(0 \<mapsto> Map.empty(''vbkeya'' \<mapsto> VStr ''mine'')),
        file_dicts = Map.empty, data_dicts = Map.empty, name_dicts = Map.empty,
        engines = Map.empty, fresh = 1\<rparr>
       None None
       (Some \<lparr>ref_dll_func_true_names = 0, obj_tagged_blocks = Map.empty, obj_loaded_excel = None,
              ref_open_files = 0, ref_closed_files = 0, ref_globals = 0, obj_locals = Map.empty,
              ref_engine = None, ref_doc_vars = 0, obj_loop_stack = [], obj_exit_func = False,
              obj_types = Map.empty, obj_with_prefix = []\<rparr>)
       None None None (VStr ''12:00'')))
     \<lparr>ref_dll_func_true_names = 0, obj_tagged_blocks = Map.empty, obj_loaded_excel = None,
      ref_open_files = 0, ref_closed_files = 0, ref_globals = 0, obj_locals = Map.empty,
      ref_engine = None, ref_doc_vars = 0, obj_loop_stack = [], obj_exit_func = False,
      obj_types = Map.empty, obj_with_prefix = []\<rparr>) ''vbkeya'' = Some (VInt 65)"
proof -
  let ?h = "\<lparr>val_dicts = Map.empty(0 \<mapsto> Map.empty(''vbkeya'' \<mapsto> VStr ''mine'')),
        file_dicts = Map.empty, data_dicts = Map.empty, name_dicts = Map.empty,
        engines = Map.empty, fresh = 1\<rparr>"
  let ?p = "\<lparr>ref_dll_func_true_names = 0, obj_tagged_blocks = Map.empty, obj_loaded_excel = None,
              ref_open_files = 0, ref_closed_files = 0, ref_globals = 0, obj_locals = Map.empty,
              ref_engine = None, ref_doc_vars = 0, obj_loop_stack = [], obj_exit_func = False,
              obj_types = Map.empty, obj_with_prefix = []\<rparr>"
  note t = Context_init_rewrites_shared_globals [of ?h None ?p None None None "VStr ''12:00''"]
  from t have a: "globals (view (fst (Context_init ?h None None (Some ?p) None None None (VStr ''12:00''))) ?p)
     = seed (globals (view ?h ?p)) (seeded_constants (VStr ''12:00''))"
    by (rule conjunct1 [OF conjunct2])
  from t have b: "seed (globals (view ?h ?p)) (seeded_constants (VStr ''12:00'')) ''vbkeya'' = Some (VInt 65)"
    by (rule conjunct2 [OF conjunct2 [OF conjunct2 [OF conjunct2 [OF conjunct2 [OF conjunct2]]]]])
  show ?thesis by (simp only: a b)
qed

text \<open>
  The claim as first stated holds for every construction that passes \<^verbatim>\<open>context=p\<close>.
  When \<^verbatim>\<open>_globals\<close> is passed as well, the new context takes that dictionary (line 110
  is tested first), and the parent's dictionary is neither shared nor rewritten.
\<close>

theorem Context_init_explicit_globals_counterexample:
  "ref_globals (snd (Context_init
       \<lparr>val_dicts = Map.empty(0 \<mapsto> Map.empty(''vbkeya'' \<mapsto> VStr ''mine''), 1 \<mapsto> Map.empty),
        file_dicts = Map.empty, data_dicts = Map.empty, name_dicts = Map.empty,
        engines = Map.empty, fresh = 2\<rparr>
       (Some 1) None
       (Some \<lparr>ref_dll_func_true_names = 0, obj_tagged_blocks = Map.empty, obj_loaded_excel = None,
              ref_open_files = 0, ref_closed_files = 0, ref_globals = 0, obj_locals = Map.empty,
              ref_engine = None, ref_doc_vars = 0, obj_loop_stack = [], obj_exit_func = False,
              obj_types = Map.empty, obj_with_prefix = []\<rparr>)
       None None None (VStr ''12:00''))) = 1 \<and>
   val_dicts (fst (Context_init
       \<lparr>val_dicts = Map.empty(0 \<mapsto> Map.empty(''vbkeya'' \<mapsto> VStr ''mine''), 1 \<mapsto> Map.empty),
        file_dicts = Map.empty, data_dicts = Map.empty, name_dicts = Map.empty,
        engines = Map.empty, fresh = 2\<rparr>
       (Some 1) None
       (Some \<lparr>ref_dll_func_true_names = 0, obj_tagged_blocks = Map.empty, obj_loaded_excel = None,
              ref_open_files = 0, ref_closed_files = 0, ref_globals = 0, obj_locals = Map.empty,
              ref_engine = None, ref_doc_vars = 0, obj_loop_stack = [], obj_exit_func = False,
              obj_types = Map.empty, obj_with_prefix = []\<rparr>)
       None None None (VStr ''12:00''))) 0 = Some (Map.empty(''vbkeya'' \<mapsto> VStr ''mine''))"
  by (simp add: Context_init_def Let_def new_name_dict_def new_file_dict_def new_data_dict_def
      case_prod_beta)


section \<open>Properties of the spreadsheet read\<close>
















end
